theory Spec2Isabelle
  imports Complex_Main "HOL-Library.Word" "HOL-Library.Log_Nat"
begin

section \<open>Go values\<close>

text \<open>
  \<^item> \<open>time.Duration\<close> is a signed 64-bit count of nanoseconds. It is modelled by \<open>int\<close>:
    the only arithmetic the two source files do on durations is comparison and a
    conversion from \<open>float64\<close>.
  \<^item> A \<open>float64\<close> is the rational number it stands for. The conversion of an integer to
    \<open>float64\<close> and the product of two \<open>float64\<close> round to 53 significant bits, to the
    nearest value and to the even one of two nearest, as IEEE 754 has it. The values the
    sources convert and multiply are 0 or of magnitude from 1 up to a small multiple of
    \<open>2 ^ 63\<close>: there is no overflow and no underflow, and the rounding is defined for
    such values. Infinities and NaN are not modelled, and what is computed from the outputs
    of the estimators (\<open>frequencyPPB\<close>) is taken exactly.
  \<^item> A slice is \<open>None\<close> when it is \<open>nil\<close> and \<open>Some xs\<close> otherwise; an empty slice that
    is not \<open>nil\<close> is \<open>Some []\<close>.
  \<^item> A panic is a result of its own: the left summand of a sum type, or a constructor of
    the result type, with the value of the panic.
\<close>

type_synonym Duration = int
type_synonym float64 = rat
type_synonym 'a slice = "'a list option"

definition Microsecond :: Duration where
  "Microsecond = 1000"

definition Second :: Duration where
  "Second = 1000000000"

definition elems :: "'a slice \<Rightarrow> 'a list" where
  "elems s = (case s of None \<Rightarrow> [] | Some xs \<Rightarrow> xs)"

definition len :: "'a slice \<Rightarrow> nat" where
  "len s = length (elems s)"

text \<open>\<open>append(s, x)\<close>: the result is never \<open>nil\<close>.\<close>

definition append_slice :: "'a slice \<Rightarrow> 'a \<Rightarrow> 'a slice" where
  "append_slice s x = Some (elems s @ [x])"

text \<open>\<open>make([]time.Duration, n)\<close>: \<open>n\<close> zero durations, never \<open>nil\<close>.\<close>

definition make_durations :: "nat \<Rightarrow> Duration slice" where
  "make_durations n = Some (replicate n 0)"

text \<open>
  The integer nearest to \<open>x\<close>, the even one of two nearest; the \<open>float64\<close> nearest to
  \<open>x\<close>, for \<open>x = 0\<close> or \<open>1 \<le> |x|\<close>: with \<open>b\<close> bits in the integer part of \<open>|x|\<close>, a
  multiple of \<open>2 ^ (b - 53)\<close>.
\<close>

definition round_half_even :: "rat \<Rightarrow> int" where
  "round_half_even x =
     (let f = \<lfloor>x\<rfloor>; r = x - of_int f
      in if r < 1 / 2 then f else if 1 / 2 < r then f + 1 else if even f then f else f + 1)"

definition float64_round :: "rat \<Rightarrow> float64" where
  "float64_round x =
     (let m = \<bar>x\<bar>; e = bitlen \<lfloor>m\<rfloor> - 53
      in if 0 \<le> e then sgn x * of_int (round_half_even (m / 2 ^ nat e) * 2 ^ nat e)
         else sgn x * of_int (round_half_even (m * 2 ^ nat (- e))) / 2 ^ nat (- e))"

text \<open>\<open>float64(n)\<close> for an integer \<open>n\<close>, and \<open>a * b\<close> for two \<open>float64\<close>.\<close>

definition float64_of_int :: "int \<Rightarrow> float64" where
  "float64_of_int n = float64_round (of_int n)"

definition float64_mul :: "float64 \<Rightarrow> float64 \<Rightarrow> float64" where
  "float64_mul a b = float64_round (a * b)"

text \<open>
  \<open>time.Duration(x)\<close> for a \<open>float64\<close> \<open>x\<close>: the fraction is discarded. (For an \<open>x\<close>
  outside the range of \<open>int64\<close> Go leaves the result to the implementation; the model
  discards the fraction there too.)
\<close>

definition Duration_of_float64 :: "float64 \<Rightarrow> Duration" where
  "Duration_of_float64 x = (if 0 \<le> x then \<lfloor>x\<rfloor> else \<lceil>x\<rceil>)"

datatype error =
    errUnexpectedPacketFlags
  | errUnexpectedPacket
  | errOther string

section \<open>core/sync/sync.go\<close>

subsection \<open>Constants (lines 20-29)\<close>

definition refClkImpact :: float64 where
  "refClkImpact = 5 / 4"

definition refClkCutoff :: Duration where
  "refClkCutoff = 0"

definition refClkTimeout :: Duration where
  "refClkTimeout = 1 * Second"

definition refClkInterval :: Duration where
  "refClkInterval = 2 * Second"

definition netClkImpact :: float64 where
  "netClkImpact = 5 / 2"

definition netClkCutoff :: Duration where
  "netClkCutoff = Microsecond"

definition netClkTimeout :: Duration where
  "netClkTimeout = 5 * Second"

definition netClkInterval :: Duration where
  "netClkInterval = 60 * Second"

subsection \<open>Reference clocks and the registry (lines 31-60)\<close>

text \<open>
  \<open>client.ReferenceClock\<close> is an interface. The one implementation of sync.go is
  \<open>localReferenceClock\<close>; every other implementation is a handle \<open>ExternalClock x\<close>,
  whose measurement is given by the environment of the call: a function from the timeout
  of the context and the handle to the pair \<open>(time.Duration, error)\<close> the method
  returns.
\<close>

datatype 'c ReferenceClock = localReferenceClock | ExternalClock 'c

type_synonym 'c measurements = "Duration \<Rightarrow> 'c \<Rightarrow> Duration \<times> error option"

definition MeasureClockOffset ::
  "'c measurements \<Rightarrow> Duration \<Rightarrow> 'c ReferenceClock \<Rightarrow> Duration \<times> error option" where
  "MeasureClockOffset env timeout c =
     (case c of localReferenceClock \<Rightarrow> (0, None) | ExternalClock x \<Rightarrow> env timeout x)"

record 'c registry =
  refClks :: "'c ReferenceClock slice"
  refClkOffsets :: "Duration slice"
  netClks :: "'c ReferenceClock slice"
  netClkOffsets :: "Duration slice"

text \<open>The package-level variables before any call: every slice is \<open>nil\<close>.\<close>

definition registry0 :: "'c registry" where
  "registry0 = \<lparr>refClks = None, refClkOffsets = None, netClks = None, netClkOffsets = None\<rparr>"

definition RegisterClocks ::
  "'c ReferenceClock slice \<Rightarrow> 'c ReferenceClock slice \<Rightarrow> 'c registry \<Rightarrow> string + 'c registry" where
  "RegisterClocks refClocks netClocks g =
     (if refClks g \<noteq> None \<or> netClks g \<noteq> None
      then Inl ''reference clocks already registered''
      else
        let g1 = g\<lparr>refClks := refClocks\<rparr>;
            g2 = g1\<lparr>refClkOffsets := make_durations (len (refClks g1))\<rparr>;
            g3 = g2\<lparr>netClks := netClocks\<rparr>;
            g4 = (if len (netClks g3) \<noteq> 0
                  then g3\<lparr>netClks := append_slice (netClks g3) localReferenceClock\<rparr>
                  else g3)
        in Inr (g4\<lparr>netClkOffsets := make_durations (len (netClks g4))\<rparr>))"

subsection \<open>Collaborators that are not among the sources\<close>

text \<open>
  Modelled from the spec: \<open>timemath.Abs\<close> and \<open>timemath.Sign\<close> (package base/timemath is
  not among the sources); the spec names them "sign/abs" of a signed duration.
\<close>

definition Abs :: "Duration \<Rightarrow> Duration" where
  "Abs d = \<bar>d\<bar>"

definition Sign :: "Duration \<Rightarrow> int" where
  "Sign d = sgn d"

text \<open>
  Modelled from the spec: \<open>client.ReferenceClockClient.MeasureClockOffsets\<close> (package
  core/client is not among the sources). The spec: every source is measured within the
  shared deadline, and "each per-source failure or timeout deposits a zero into its slot".
  The callee receives the two slices by value, so it writes slots and cannot change the
  length of the caller's slice: slot \<open>i\<close> is written with \<open>offs[i := v]\<close>.
\<close>

definition slot :: "'c measurements \<Rightarrow> Duration \<Rightarrow> 'c ReferenceClock \<Rightarrow> Duration" where
  "slot env timeout c =
     (case MeasureClockOffset env timeout c of (d, None) \<Rightarrow> d | (d, Some e) \<Rightarrow> 0)"

fun deposit ::
  "'c measurements \<Rightarrow> Duration \<Rightarrow> 'c ReferenceClock list \<Rightarrow> nat \<Rightarrow> Duration list \<Rightarrow> Duration list" where
  "deposit env timeout [] i offs = offs"
| "deposit env timeout (c # cs) i offs =
     deposit env timeout cs (Suc i) (offs[i := slot env timeout c])"

definition MeasureClockOffsets ::
  "'c measurements \<Rightarrow> Duration \<Rightarrow> 'c ReferenceClock slice \<Rightarrow> Duration slice \<Rightarrow> Duration slice" where
  "MeasureClockOffsets env timeout clks offs =
     map_option (deposit env timeout (elems clks) 0) offs"

text \<open>
  The remaining collaborators are parameters of the model: the two reducers of
  base/timemath (as functions of the offsets: whether they reorder the scratch slice they
  are given is not modelled, its length they cannot change), its conversion of seconds to
  a duration, the local clock's \<open>MaxDrift\<close>, and the two estimators (\<open>newTheilSen\<close>,
  \<open>newPLL\<close> and their methods are in files of the package that are not among the
  sources), over estimator states of any type.
\<close>

record ('ts, 'pll) deps =
  Median :: "Duration list \<Rightarrow> Duration"
  FaultTolerantMidpoint :: "Duration list \<Rightarrow> Duration"
  timemath_Duration :: "float64 \<Rightarrow> Duration"
  MaxDrift :: "Duration \<Rightarrow> Duration"
  newTheilSen :: "'ts"
  theilSen_AddSample :: "Duration \<Rightarrow> 'ts \<Rightarrow> 'ts"
  theilSen_GetOffsetNs :: "'ts \<Rightarrow> float64"
  newPLL :: "'pll"
  pll_AddSampleAndGetData :: "Duration \<Rightarrow> float64 \<Rightarrow> 'pll \<Rightarrow> (float64 \<times> float64 \<times> float64) \<times> 'pll"

subsection \<open>State and observable calls\<close>

text \<open>
  The calls a function makes on its collaborators are recorded in program order. Logging
  is not recorded, nor what is computed for the log only (\<open>pllFreq\<close>, lines 113 and
  182), nor the estimators' read-only \<open>GetOffsetNs\<close>.
\<close>

datatype call =
    Call_MeasureClockOffsets Duration
  | Call_Step Duration
  | Call_Adjust Duration Duration float64
  | Call_AdjustWithTick float64
  | Call_Sleep Duration
  | Call_theilSen_AddSample Duration
  | Call_pll_AddSampleAndGetData Duration float64
  | Call_corrGauge_Set float64

record ('c, 'ts, 'pll) sync_state =
  registry :: "'c registry"
  theilSen :: "'ts"
  pll :: "'pll"
  corrGauge :: float64
  calls :: "call list"

definition emit :: "call list \<Rightarrow> ('c, 'ts, 'pll) sync_state \<Rightarrow> ('c, 'ts, 'pll) sync_state" where
  "emit cs s = s\<lparr>calls := calls s @ cs\<rparr>"

subsection \<open>Measuring (lines 62-74, 136-141)\<close>

definition measureOffsetToRefClocks ::
  "('ts, 'pll) deps \<Rightarrow> 'c measurements \<Rightarrow> Duration \<Rightarrow> ('c, 'ts, 'pll) sync_state
     \<Rightarrow> Duration \<times> ('c, 'ts, 'pll) sync_state" where
  "measureOffsetToRefClocks D env timeout s =
     (let g = registry s;
          offs = MeasureClockOffsets env timeout (refClks g) (refClkOffsets g);
          s' = emit [Call_MeasureClockOffsets timeout] (s\<lparr>registry := g\<lparr>refClkOffsets := offs\<rparr>\<rparr>)
      in (Median D (elems offs), s'))"

definition SyncToRefClocks ::
  "('ts, 'pll) deps \<Rightarrow> 'c measurements \<Rightarrow> ('c, 'ts, 'pll) sync_state \<Rightarrow> ('c, 'ts, 'pll) sync_state" where
  "SyncToRefClocks D env s =
     (case measureOffsetToRefClocks D env refClkTimeout s of
        (corr, s') \<Rightarrow> if corr \<noteq> 0 then emit [Call_Step corr] s' else s')"

definition measureOffsetToNetClocks ::
  "('ts, 'pll) deps \<Rightarrow> 'c measurements \<Rightarrow> Duration \<Rightarrow> ('c, 'ts, 'pll) sync_state
     \<Rightarrow> Duration \<times> ('c, 'ts, 'pll) sync_state" where
  "measureOffsetToNetClocks D env timeout s =
     (let g = registry s;
          offs = MeasureClockOffsets env timeout (netClks g) (netClkOffsets g);
          s' = emit [Call_MeasureClockOffsets timeout] (s\<lparr>registry := g\<lparr>netClkOffsets := offs\<rparr>\<rparr>)
      in (FaultTolerantMidpoint D (elems offs), s'))"

subsection \<open>The two control loops (lines 76-134, 143-203)\<close>

text \<open>
  Lines 100-130 and 170-199 are the same text up to the interval constant: the body of
  \<open>if timemath.Abs(corr) > cutoff\<close>, here with the interval as an argument.
\<close>

definition discipline ::
  "('ts, 'pll) deps \<Rightarrow> bool \<Rightarrow> float64 \<Rightarrow> Duration \<Rightarrow> Duration \<Rightarrow> ('c, 'ts, 'pll) sync_state
     \<Rightarrow> ('c, 'ts, 'pll) sync_state" where
  "discipline D useTheilSen maxCorr interval corr0 s =
     (let corr = (if float64_of_int (Abs corr0) > maxCorr
                  then Duration_of_float64 (float64_mul (float64_of_int (Sign corr0)) maxCorr)
                  else corr0);
          ts = theilSen_AddSample D corr (theilSen s);
          offset = theilSen_GetOffsetNs D ts;
          frequencyPPB = offset / float64_of_int interval * 1000000000
      in case pll_AddSampleAndGetData D corr 1000 (pll s) of
           ((correction, intv, startFreq), p) \<Rightarrow>
             (let s1 = emit [Call_theilSen_AddSample corr, Call_pll_AddSampleAndGetData corr 1000]
                         (s\<lparr>theilSen := ts, pll := p\<rparr>);
                  s2 = (if useTheilSen
                        then (if \<bar>frequencyPPB\<bar> > 0
                              then emit [Call_AdjustWithTick frequencyPPB] s1 else s1)
                        else (if intv > 0
                              then emit [Call_Adjust (timemath_Duration D correction)
                                           (timemath_Duration D intv) startFreq] s1
                              else s1))
              in emit [Call_corrGauge_Set (float64_of_int corr)]
                   (s2\<lparr>corrGauge := float64_of_int corr\<rparr>)))"

text \<open>Lines 77-89: the checks before the loop; the result is \<open>maxCorr\<close>.\<close>

definition RunLocalClockSync_maxCorr :: "('ts, 'pll) deps \<Rightarrow> string + float64" where
  "RunLocalClockSync_maxCorr D =
     (if refClkImpact \<le> 1 then Inl ''invalid reference clock impact factor''
      else if refClkInterval \<le> 0 then Inl ''invalid reference clock sync interval''
      else if refClkTimeout < 0 \<or> refClkTimeout > refClkInterval div 2
      then Inl ''invalid reference clock sync timeout''
      else let maxCorr = float64_mul refClkImpact (float64_of_int (MaxDrift D refClkInterval))
           in if maxCorr \<le> 0 then Inl ''invalid reference clock max correction''
              else Inr maxCorr)"

text \<open>Lines 97-132: one iteration of the loop.\<close>

definition RunLocalClockSync_round ::
  "('ts, 'pll) deps \<Rightarrow> bool \<Rightarrow> float64 \<Rightarrow> 'c measurements \<Rightarrow> ('c, 'ts, 'pll) sync_state
     \<Rightarrow> ('c, 'ts, 'pll) sync_state" where
  "RunLocalClockSync_round D useTheilSen maxCorr env s =
     (case measureOffsetToRefClocks D env refClkTimeout
             (emit [Call_corrGauge_Set 0] (s\<lparr>corrGauge := 0\<rparr>)) of
        (corr, s1) \<Rightarrow>
          emit [Call_Sleep refClkInterval]
            (if Abs corr > refClkCutoff
             then discipline D useTheilSen maxCorr refClkInterval corr s1
             else s1))"

definition RunGlobalClockSync_maxCorr :: "('ts, 'pll) deps \<Rightarrow> string + float64" where
  "RunGlobalClockSync_maxCorr D =
     (if netClkImpact \<le> 1 then Inl ''invalid network clock impact factor''
      else if netClkImpact - 1 \<le> refClkImpact then Inl ''invalid network clock impact factor''
      else if netClkInterval < refClkInterval then Inl ''invalid network clock sync interval''
      else if netClkTimeout < 0 \<or> netClkTimeout > netClkInterval div 2
      then Inl ''invalid network clock sync timeout''
      else let maxCorr = float64_mul netClkImpact (float64_of_int (MaxDrift D netClkInterval))
           in if maxCorr \<le> 0 then Inl ''invalid network clock max correction''
              else Inr maxCorr)"

definition RunGlobalClockSync_round ::
  "('ts, 'pll) deps \<Rightarrow> bool \<Rightarrow> float64 \<Rightarrow> 'c measurements \<Rightarrow> ('c, 'ts, 'pll) sync_state
     \<Rightarrow> ('c, 'ts, 'pll) sync_state" where
  "RunGlobalClockSync_round D useTheilSen maxCorr env s =
     (case measureOffsetToNetClocks D env netClkTimeout
             (emit [Call_corrGauge_Set 0] (s\<lparr>corrGauge := 0\<rparr>)) of
        (corr, s1) \<Rightarrow>
          emit [Call_Sleep netClkInterval]
            (if Abs corr > netClkCutoff
             then discipline D useTheilSen maxCorr netClkInterval corr s1
             else s1))"

text \<open>
  The loops never return. Their first \<open>n\<close> iterations are the iterations over a list of
  \<open>n\<close> measurement environments, one for each round.
\<close>

fun rounds ::
  "('e \<Rightarrow> 's \<Rightarrow> 's) \<Rightarrow> 'e list \<Rightarrow> 's \<Rightarrow> 's" where
  "rounds body [] s = s"
| "rounds body (env # envs) s = rounds body envs (body env s)"

definition RunLocalClockSync ::
  "('ts, 'pll) deps \<Rightarrow> bool \<Rightarrow> 'c measurements list \<Rightarrow> ('c, 'ts, 'pll) sync_state
     \<Rightarrow> string + ('c, 'ts, 'pll) sync_state" where
  "RunLocalClockSync D useTheilSen envs s =
     (case RunLocalClockSync_maxCorr D of
        Inl p \<Rightarrow> Inl p
      | Inr maxCorr \<Rightarrow>
          Inr (rounds (RunLocalClockSync_round D useTheilSen maxCorr) envs
                 (s\<lparr>theilSen := newTheilSen D, pll := newPLL D\<rparr>)))"

definition RunGlobalClockSync ::
  "('ts, 'pll) deps \<Rightarrow> bool \<Rightarrow> 'c measurements list \<Rightarrow> ('c, 'ts, 'pll) sync_state
     \<Rightarrow> string + ('c, 'ts, 'pll) sync_state" where
  "RunGlobalClockSync D useTheilSen envs s =
     (case RunGlobalClockSync_maxCorr D of
        Inl p \<Rightarrow> Inl p
      | Inr maxCorr \<Rightarrow>
          Inr (rounds (RunGlobalClockSync_round D useTheilSen maxCorr) envs
                 (s\<lparr>theilSen := newTheilSen D, pll := newPLL D\<rparr>)))"

subsection \<open>The operations of the package, in sequence\<close>

text \<open>
  What a program can do with the package: call \<open>RegisterClocks\<close> or \<open>SyncToRefClocks\<close>,
  and let either loop run one more round. A panic ends the sequence.
\<close>

datatype 'c operation =
    Op_RegisterClocks "'c ReferenceClock slice" "'c ReferenceClock slice"
  | Op_SyncToRefClocks "'c measurements"
  | Op_RunLocalClockSync_round bool float64 "'c measurements"
  | Op_RunGlobalClockSync_round bool float64 "'c measurements"

fun operate ::
  "('ts, 'pll) deps \<Rightarrow> 'c operation \<Rightarrow> ('c, 'ts, 'pll) sync_state
     \<Rightarrow> string + ('c, 'ts, 'pll) sync_state" where
  "operate D (Op_RegisterClocks refClocks netClocks) s =
     (case RegisterClocks refClocks netClocks (registry s) of
        Inl p \<Rightarrow> Inl p
      | Inr g \<Rightarrow> Inr (s\<lparr>registry := g\<rparr>))"
| "operate D (Op_SyncToRefClocks env) s = Inr (SyncToRefClocks D env s)"
| "operate D (Op_RunLocalClockSync_round useTheilSen maxCorr env) s =
     Inr (RunLocalClockSync_round D useTheilSen maxCorr env s)"
| "operate D (Op_RunGlobalClockSync_round useTheilSen maxCorr env) s =
     Inr (RunGlobalClockSync_round D useTheilSen maxCorr env s)"

fun operate_all ::
  "('ts, 'pll) deps \<Rightarrow> 'c operation list \<Rightarrow> ('c, 'ts, 'pll) sync_state
     \<Rightarrow> string + ('c, 'ts, 'pll) sync_state" where
  "operate_all D [] s = Inr s"
| "operate_all D (op # ops) s =
     (case operate D op s of Inl p \<Rightarrow> Inl p | Inr s' \<Rightarrow> operate_all D ops s')"

fun is_RegisterClocks :: "'c operation \<Rightarrow> bool" where
  "is_RegisterClocks (Op_RegisterClocks refClocks netClocks) = True"
| "is_RegisterClocks (Op_SyncToRefClocks env) = False"
| "is_RegisterClocks (Op_RunLocalClockSync_round useTheilSen maxCorr env) = False"
| "is_RegisterClocks (Op_RunGlobalClockSync_round useTheilSen maxCorr env) = False"

text \<open>Two registries of the same shape: the same clocks, and scratch slices as long.\<close>

definition same_shape :: "'c registry \<Rightarrow> 'c registry \<Rightarrow> bool" where
  "same_shape g h \<longleftrightarrow> refClks h = refClks g \<and> netClks h = netClks g \<and>
     len (refClkOffsets h) = len (refClkOffsets g) \<and>
     len (netClkOffsets h) = len (netClkOffsets g)"

text \<open>The samples given to the estimators, read off the recorded calls.\<close>

fun theilSen_sample :: "call \<Rightarrow> Duration list" where
  "theilSen_sample (Call_theilSen_AddSample d) = [d]"
| "theilSen_sample (Call_MeasureClockOffsets t) = []"
| "theilSen_sample (Call_Step d) = []"
| "theilSen_sample (Call_Adjust a b f) = []"
| "theilSen_sample (Call_AdjustWithTick f) = []"
| "theilSen_sample (Call_Sleep d) = []"
| "theilSen_sample (Call_pll_AddSampleAndGetData d w) = []"
| "theilSen_sample (Call_corrGauge_Set v) = []"

fun pll_sample :: "call \<Rightarrow> (Duration \<times> float64) list" where
  "pll_sample (Call_pll_AddSampleAndGetData d w) = [(d, w)]"
| "pll_sample (Call_MeasureClockOffsets t) = []"
| "pll_sample (Call_Step d) = []"
| "pll_sample (Call_Adjust a b f) = []"
| "pll_sample (Call_AdjustWithTick f) = []"
| "pll_sample (Call_Sleep d) = []"
| "pll_sample (Call_theilSen_AddSample d) = []"
| "pll_sample (Call_corrGauge_Set v) = []"

definition theilSen_samples :: "call list \<Rightarrow> Duration list" where
  "theilSen_samples cs = concat (map theilSen_sample cs)"

definition pll_samples :: "call list \<Rightarrow> (Duration \<times> float64) list" where
  "pll_samples cs = concat (map pll_sample cs)"

subsection \<open>Collaborators for the examples\<close>

text \<open>
  Modelled from the spec: \<open>timemath.Median\<close> and \<open>timemath.FaultTolerantMidpoint\<close>
  (package base/timemath is not among the sources). The spec: the median is the middle
  element of the sorted offsets, or the mean of the two middle ones; the midpoint sorts,
  drops \<open>f = (n - 1) div 3\<close> offsets at either end and returns the mean of the least
  and the greatest that remain, "the only value or zero" when \<open>n \<le> 1\<close>. The spec gives
  the median of no offsets no value; it is 0 here. The examples use the two functions
  where the mean is exact.
\<close>

definition Median_spec :: "Duration list \<Rightarrow> Duration" where
  "Median_spec ds =
     (let xs = sort ds; n = length xs
      in if n = 0 then 0
         else if n mod 2 = 1 then xs ! (n div 2)
         else (xs ! (n div 2 - 1) + xs ! (n div 2)) div 2)"

definition FaultTolerantMidpoint_spec :: "Duration list \<Rightarrow> Duration" where
  "FaultTolerantMidpoint_spec ds =
     (let xs = sort ds; n = length xs; f = (n - 1) div 3
      in if n = 0 then 0
         else if n = 1 then xs ! 0
         else (xs ! f + xs ! (n - 1 - f)) div 2)"

text \<open>A local clock of constant drift bound, and estimators that keep the samples.\<close>

definition constant_drift :: "Duration \<Rightarrow> Duration \<Rightarrow> Duration" where
  "constant_drift d interval = d"

definition keep_sample :: "Duration \<Rightarrow> Duration list \<Rightarrow> Duration list" where
  "keep_sample d ds = ds @ [d]"

definition last_sample :: "Duration list \<Rightarrow> float64" where
  "last_sample ds = (case rev ds of [] \<Rightarrow> 0 | d # rest \<Rightarrow> of_int d)"

definition slew_sample ::
  "Duration \<Rightarrow> float64 \<Rightarrow> Duration list \<Rightarrow> (float64 \<times> float64 \<times> float64) \<times> Duration list" where
  "slew_sample d w ds = ((of_int d / 1000000000, 1, 0), ds @ [d])"

definition seconds :: "float64 \<Rightarrow> Duration" where
  "seconds x = \<lfloor>x * 1000000000\<rfloor>"

definition example_deps :: "Duration \<Rightarrow> (Duration list, Duration list) deps" where
  "example_deps d =
     \<lparr>Median = Median_spec, FaultTolerantMidpoint = FaultTolerantMidpoint_spec,
      timemath_Duration = seconds, MaxDrift = constant_drift d,
      newTheilSen = [], theilSen_AddSample = keep_sample, theilSen_GetOffsetNs = last_sample,
      newPLL = [], pll_AddSampleAndGetData = slew_sample\<rparr>"

text \<open>Sources that answer with the offsets of a list, by position, without error.\<close>

definition answers :: "Duration list \<Rightarrow> Duration \<Rightarrow> nat \<Rightarrow> Duration \<times> error option" where
  "answers ds timeout i = (if i < length ds then (ds ! i, None) else (0, Some (errOther ''timeout'')))"

text \<open>The program before any call, and after its one call of \<open>RegisterClocks\<close>.\<close>

definition state0 :: "(nat, Duration list, Duration list) sync_state" where
  "state0 = \<lparr>registry = registry0, theilSen = [], pll = [], corrGauge = 0, calls = []\<rparr>"

definition example_state :: "nat ReferenceClock slice \<Rightarrow> nat ReferenceClock slice
    \<Rightarrow> (nat, Duration list, Duration list) sync_state" where
  "example_state refClocks netClocks =
     (case operate (example_deps 0) (Op_RegisterClocks refClocks netClocks) state0 of
        Inl p \<Rightarrow> state0 | Inr s \<Rightarrow> s)"

text \<open>The state after a sequence of operations that does not panic.\<close>

definition after ::
  "nat operation list \<Rightarrow> (nat, Duration list, Duration list) sync_state
     \<Rightarrow> (nat, Duration list, Duration list) sync_state" where
  "after ops s = (case operate_all (example_deps 0) ops s of Inl p \<Rightarrow> s | Inr s' \<Rightarrow> s')"

section \<open>go/driver/ntp/scion.go\<close>

subsection \<open>Data\<close>

text \<open>
  \<open>time.Time\<close> is an instant, as nanoseconds on the time line; \<open>ntp.Time64\<close> is the
  64-bit NTP timestamp, compared with \<open>==\<close>; an ISD-AS number is 64 bits.
\<close>

type_synonym bytes = "8 word list"
type_synonym Time = int
type_synonym Time64 = "64 word"
type_synonym IA = "64 word"

text \<open>\<open>t.Sub(u)\<close> of package time: the difference, saturated to the range of a duration.\<close>

definition Time_Sub :: "Time \<Rightarrow> Time \<Rightarrow> Duration" where
  "Time_Sub t u = max (- (2 ^ 63)) (min (2 ^ 63 - 1) (t - u))"

text \<open>
  \<open>ntp.Packet\<close> (its declaration is not among the sources): the version and mode, the
  three timestamps this file reads and writes, and the remaining header fields, which only
  \<open>ntp.ValidateMetadata\<close> looks at, as they are on the wire.
\<close>

record Packet =
  Version :: nat
  Mode :: nat
  Metadata :: bytes
  OriginTime :: Time64
  ReceiveTime :: Time64
  TransmitTime :: Time64

definition Packet0 :: Packet where
  "Packet0 = \<lparr>Version = 0, Mode = 0, Metadata = [], OriginTime = 0, ReceiveTime = 0,
     TransmitTime = 0\<rparr>"

text \<open>
  Modelled from the spec: \<open>ntp.VersionMax\<close> and \<open>ntp.ModeClient\<close> (package go/net/ntp is
  not among the sources); the spec: "Standard NTP v4", sent by a client.
\<close>

definition VersionMax :: nat where
  "VersionMax = 4"

definition ModeClient :: nat where
  "ModeClient = 3"

text \<open>
  Modelled from the spec: \<open>scion.PacketAuthOptDataLen\<close> and
  \<open>scion.PacketAuthMetadataLen\<close> (package go/net/scion is not among the sources); the
  spec: the option data has 28 bytes, of which SPI (4), algorithm (1) and
  reserved/timestamp/sequence (7) precede the MAC (16).
\<close>

definition PacketAuthOptDataLen :: nat where
  "PacketAuthOptDataLen = 28"

definition PacketAuthMetadataLen :: nat where
  "PacketAuthMetadataLen = 12"

record UDPAddr =
  IA :: IA
  Host_IP :: bytes
  Host_Port :: nat

datatype L4ProtocolType = L4UDP | End2EndClass

datatype OptionType = OptTypeAuthenticator | OptTypeTimestamp | OptTypeOther nat

datatype LayerType =
    LayerTypeSCION
  | LayerTypeHopByHopExtn
  | LayerTypeEndToEndExtn
  | LayerTypeSCIONUDP
  | LayerTypeSCMP

text \<open>The fields of \<open>slayers.SCION\<close> that the file sets or reads (the path apart).\<close>

record SCION =
  SrcIA :: IA
  RawSrcAddr :: bytes
  DstIA :: IA
  RawDstAddr :: bytes
  NextHdr :: L4ProtocolType

text \<open>
  The layers of the datagram that is sent, outermost first, as
  \<open>gopacket.SerializeBuffer\<close> holds them after each \<open>PushLayer\<close>.
\<close>

datatype layer =
    Layer_SCION SCION
  | Layer_EndToEndExtn L4ProtocolType "(OptionType \<times> bytes) list"
  | Layer_UDP nat nat
  | Layer_Payload Packet

datatype payload = Serialized "layer list" | Received bytes

record MACInput =
  Key :: bytes
  Header :: bytes
  ScionLayer :: SCION
  PldType :: L4ProtocolType
  Pld :: payload

datatype panic = PanicString string | PanicError error

text \<open>
  \<open>SCIONClient\<close>: \<open>DRKeyFetcher\<close> is whether the pointer is set; the scratch buffers of
  \<open>auth\<close> (lines 65-70) carry nothing from one call to the next and are left out.
\<close>

record SCIONClient =
  InterleavedMode :: bool
  DRKeyFetcher :: bool
  prev_reference :: string
  prev_cTxTime :: Time64
  prev_cRxTime :: Time64
  prev_sRxTime :: Time64

definition defaultSCIONClient :: SCIONClient where
  "defaultSCIONClient = \<lparr>InterleavedMode = False, DRKeyFetcher = False, prev_reference = [],
     prev_cTxTime = 0, prev_cRxTime = 0, prev_sRxTime = 0\<rparr>"

subsection \<open>Collaborators that are not among the sources\<close>

text \<open>
  Parameters of the model: the conversions and validations of go/net/ntp, the timestamp
  parser of go/net/udp, the CMAC of go/net/scion/spao, \<open>filter\<close> of this package (in a
  file that is not among the sources; the model takes it as a function of its arguments),
  the renderings of an ISD-AS number and of a host address, and three constants of
  go/net/scion.
\<close>

record externals =
  TimeFromTime64 :: "Time64 \<Rightarrow> Time"
  Time64FromTime :: "Time \<Rightarrow> Time64"
  TimestampFromOOBData :: "bytes \<Rightarrow> error + Time"
  ComputeAuthCMAC :: "MACInput \<Rightarrow> error + bytes"
  ValidateMetadata :: "Packet \<Rightarrow> error option"
  ValidateTimestamps :: "Time \<Rightarrow> Time \<Rightarrow> Time \<Rightarrow> Time \<Rightarrow> error option"
  filter_sample :: "string \<Rightarrow> Time \<Rightarrow> Time \<Rightarrow> Time \<Rightarrow> Time \<Rightarrow> Duration \<times> float64"
  IA_String :: "IA \<Rightarrow> string"
  Host_String :: "bytes \<Rightarrow> nat \<Rightarrow> string"
  PacketAuthClientSPI :: "32 word"
  PacketAuthServerSPI :: "32 word"
  PacketAuthAlgorithm :: "8 word"

text \<open>
  What one call obtains from the operating system, the network and the clock, in the
  order of the calls. \<open>Deadline\<close> is \<open>ctx.Deadline()\<close>: \<open>Some d\<close> when a deadline is set.
  The underlay next hop (lines 89-100) decides where the datagram goes and nothing else,
  and is left out.
\<close>

datatype write_result = Write_error error | Write_short | Write_complete

text \<open>
  One pass of the receive loop: the results of \<open>conn.ReadMsgUDPAddrPort\<close>, of the layer
  parser, of \<open>ntp.DecodePacket\<close> on the UDP payload, and the two readings of
  \<open>timebase.Now()\<close> a pass can make (as fallback receive time, line 275, and in the one
  deadline check it can reach).
\<close>

record datagram =
  Read_err :: "error option"
  Read_flags :: int
  Read_oob :: bytes
  Now_rx :: Time
  Now_check :: Time
  Decode_err :: "error option"
  decoded :: "LayerType list"
  scionLayer :: SCION
  e2eLayer :: "(OptionType \<times> bytes) list"
  udp_bytes :: bytes
  DecodePacket :: "error + Packet"

record environment =
  ListenUDP_err :: "error option"
  Deadline :: "Time option"
  SetDeadline_err :: "error option"
  LocalPort :: nat
  Now0 :: Time
  SetSrcAddr_err :: "error option"
  SetDstAddr_err :: "error option"
  SetPath_err :: "error option"
  SerializeTo_err :: "layer \<Rightarrow> error option"
  FetchHostHostKey :: "error + bytes"
  WriteToUDPAddrPort :: write_result
  ReadTXTimestamp :: "Time \<times> nat \<times> error option"
  Now1 :: Time
  datagrams :: "datagram list"

subsection \<open>compareIPs (lines 48-61)\<close>

text \<open>\<open>netip.Addr\<close> as \<open>netip.AddrFromSlice\<close> makes it: 4 or 16 bytes, no zone.\<close>

datatype Addr = Addr4 bytes | Addr16 bytes

definition AddrFromSlice :: "bytes \<Rightarrow> Addr option" where
  "AddrFromSlice x =
     (if length x = 4 then Some (Addr4 x)
      else if length x = 16 then Some (Addr16 x)
      else None)"

definition Is4In6 :: "Addr \<Rightarrow> bool" where
  "Is4In6 a = (case a of Addr4 b \<Rightarrow> False
                | Addr16 b \<Rightarrow> take 12 b = replicate 10 0 @ [255, 255])"

text \<open>\<open>netip.AddrFrom4(a.As4())\<close> for an address with \<open>Is4In6\<close>.\<close>

definition AddrFrom4_As4 :: "Addr \<Rightarrow> Addr" where
  "AddrFrom4_As4 a = (case a of Addr4 b \<Rightarrow> Addr4 b | Addr16 b \<Rightarrow> Addr4 (drop 12 b))"

fun compare_bytes :: "bytes \<Rightarrow> bytes \<Rightarrow> int" where
  "compare_bytes [] [] = 0"
| "compare_bytes [] (y # ys) = - 1"
| "compare_bytes (x # xs) [] = 1"
| "compare_bytes (x # xs) (y # ys) =
     (if x < y then - 1 else if y < x then 1 else compare_bytes xs ys)"

definition BitLen :: "Addr \<Rightarrow> nat" where
  "BitLen a = (case a of Addr4 b \<Rightarrow> 32 | Addr16 b \<Rightarrow> 128)"

definition Addr_bytes :: "Addr \<Rightarrow> bytes" where
  "Addr_bytes a = (case a of Addr4 b \<Rightarrow> b | Addr16 b \<Rightarrow> b)"

definition Addr_Compare :: "Addr \<Rightarrow> Addr \<Rightarrow> int" where
  "Addr_Compare a b =
     (if BitLen a < BitLen b then - 1
      else if BitLen b < BitLen a then 1
      else compare_bytes (Addr_bytes a) (Addr_bytes b))"

definition compareIPs :: "bytes \<Rightarrow> bytes \<Rightarrow> panic + int" where
  "compareIPs x y =
     (case (AddrFromSlice x, AddrFromSlice y) of
        (Some addrX, Some addrY) \<Rightarrow>
          Inr (Addr_Compare (if Is4In6 addrX then AddrFrom4_As4 addrX else addrX)
                            (if Is4In6 addrY then AddrFrom4_As4 addrY else addrY))
      | _ \<Rightarrow> Inl (PanicString ''unexpected IP address byte slice''))"

subsection \<open>The request (lines 107-245)\<close>

definition reference_of :: "externals \<Rightarrow> UDPAddr \<Rightarrow> string" where
  "reference_of X remoteAddr =
     IA_String X (IA remoteAddr) @ '','' @ Host_String X (Host_IP remoteAddr) (Host_Port remoteAddr)"

text \<open>Lines 110-120: the NTP packet of the request.\<close>

definition ntpreq_of :: "externals \<Rightarrow> SCIONClient \<Rightarrow> string \<Rightarrow> Time \<Rightarrow> Packet" where
  "ntpreq_of X c reference cTxTime0 =
     (let ntpreq = Packet0\<lparr>Version := VersionMax, Mode := ModeClient\<rparr>
      in if InterleavedMode c \<and> reference = prev_reference c \<and>
            Time_Sub cTxTime0 (TimeFromTime64 X (prev_cTxTime c)) \<le> Second
         then ntpreq\<lparr>OriginTime := prev_sRxTime c, ReceiveTime := prev_cRxTime c,
                 TransmitTime := prev_cTxTime c\<rparr>
         else ntpreq\<lparr>TransmitTime := Time64FromTime X cTxTime0\<rparr>)"

text \<open>Lines 177-194: the option data before the MAC is computed into its last 16 bytes.\<close>

definition authOptData_of :: "externals \<Rightarrow> bytes" where
  "authOptData_of X =
     (let spi = PacketAuthClientSPI X; algo = PacketAuthAlgorithm X
      in [ucast (drop_bit 24 spi), ucast (drop_bit 16 spi), ucast (drop_bit 8 spi), ucast spi,
          algo] @ replicate 7 0 @ replicate 16 0)"

text \<open>
  Lines 123-236: the layers of the datagram, and the key when one was fetched. An error
  of a setter or of a serializer is a panic.
\<close>

definition serialize :: "environment \<Rightarrow> layer \<Rightarrow> layer list \<Rightarrow> panic + layer list" where
  "serialize E l buffer =
     (case SerializeTo_err E l of Some err \<Rightarrow> Inl (PanicError err) | None \<Rightarrow> Inr (l # buffer))"

definition datagram_of ::
  "externals \<Rightarrow> environment \<Rightarrow> SCIONClient \<Rightarrow> UDPAddr \<Rightarrow> UDPAddr \<Rightarrow> Packet
     \<Rightarrow> panic + (layer list \<times> bytes option)" where
  "datagram_of X E c localAddr remoteAddr ntpreq =
     (case SetSrcAddr_err E of Some err \<Rightarrow> Inl (PanicError err) | None \<Rightarrow>
      case SetDstAddr_err E of Some err \<Rightarrow> Inl (PanicError err) | None \<Rightarrow>
      case SetPath_err E of Some err \<Rightarrow> Inl (PanicError err) | None \<Rightarrow>
      let scionLayer = \<lparr>SrcIA = IA localAddr, RawSrcAddr = Host_IP localAddr,
                         DstIA = IA remoteAddr, RawDstAddr = Host_IP remoteAddr,
                         NextHdr = L4UDP\<rparr>;
          udpLayer = Layer_UDP (LocalPort E mod 65536) (Host_Port remoteAddr mod 65536)
      in
      case serialize E (Layer_Payload ntpreq) [] of Inl p \<Rightarrow> Inl p | Inr buffer1 \<Rightarrow>
      case serialize E udpLayer buffer1 of Inl p \<Rightarrow> Inl p | Inr buffer2 \<Rightarrow>
      case (if DRKeyFetcher c
            then (case FetchHostHostKey E of Inl err \<Rightarrow> None | Inr key \<Rightarrow> Some key)
            else None) of
        None \<Rightarrow>
          (case serialize E (Layer_SCION scionLayer) buffer2 of Inl p \<Rightarrow> Inl p
           | Inr buffer3 \<Rightarrow> Inr (buffer3, None))
      | Some authKey \<Rightarrow>
          (let authOptData = authOptData_of X
           in case ComputeAuthCMAC X \<lparr>Key = authKey, Header = authOptData,
                     ScionLayer = scionLayer, PldType = NextHdr scionLayer,
                     Pld = Serialized buffer2\<rparr> of
                Inl err \<Rightarrow> Inl (PanicError err)
              | Inr mac \<Rightarrow>
                  (let opt = (OptTypeAuthenticator, take PacketAuthMetadataLen authOptData @ mac)
                   in case serialize E (Layer_EndToEndExtn (NextHdr scionLayer) [opt]) buffer2 of
                        Inl p \<Rightarrow> Inl p
                      | Inr buffer3 \<Rightarrow>
                          (case serialize E
                                  (Layer_SCION (scionLayer\<lparr>NextHdr := End2EndClass\<rparr>)) buffer3 of
                             Inl p \<Rightarrow> Inl p
                           | Inr buffer4 \<Rightarrow> Inr (buffer4, Some authKey)))))"

subsection \<open>The receive loop (lines 253-439)\<close>

datatype measurement =
  Measurement (m_offset: Duration) (m_weight: float64) (m_interleaved: bool)
    (m_authenticated: bool) (m_stamps: "Time \<times> Time \<times> Time \<times> Time")

text \<open>
  What a call returns: an error, or the offset and weight of \<open>filter\<close> (with what line 423
  logs of the exchange: the two flags; and the four timestamps given to \<open>filter\<close>), or
  \<open>(0, 0, nil)\<close> after a short write (line 244, where \<open>err\<close> is \<open>nil\<close>); or it panics.
\<close>

datatype outcome =
    Failed error
  | Measured measurement
  | Short_write
  | Panicked panic

datatype step = Continue | Return outcome SCIONClient

text \<open>
  The four lines that follow every recoverable failure in the loop:
  \<open>if deadlineIsSet && timebase.Now().Before(deadline) { log; continue }; return err\<close>.
\<close>

definition continue_or_return :: "Time option \<Rightarrow> Time \<Rightarrow> error \<Rightarrow> SCIONClient \<Rightarrow> step" where
  "continue_or_return deadline now err c =
     (case deadline of
        None \<Rightarrow> Return (Failed err) c
      | Some d \<Rightarrow> if now < d then Continue else Return (Failed err) c)"

text \<open>\<open>EndToEndExtn.FindOption\<close> of slayers: the data of the first option of the type.\<close>

definition FindOption :: "(OptionType \<times> bytes) list \<Rightarrow> OptionType \<Rightarrow> bytes option" where
  "FindOption opts typ = map_option snd (find (\<lambda>opt. fst opt = typ) opts)"

definition validType :: "datagram \<Rightarrow> bool" where
  "validType r = (length (decoded r) \<ge> 2 \<and>
     decoded r ! (length (decoded r) - 1) = LayerTypeSCIONUDP)"

text \<open>Lines 308-311: \<open>validSrc\<close> and \<open>validDst\<close>; \<open>&&\<close> does not evaluate \<open>compareIPs\<close>
  when the ISD-AS numbers differ.\<close>

definition validAddr :: "IA \<Rightarrow> bytes \<Rightarrow> UDPAddr \<Rightarrow> panic + bool" where
  "validAddr ia raw addr =
     (if ia = IA addr
      then (case compareIPs raw (Host_IP addr) of Inl p \<Rightarrow> Inl p | Inr n \<Rightarrow> Inr (n = 0))
      else Inr False)"

definition hasE2E :: "datagram \<Rightarrow> bool" where
  "hasE2E r = (length (decoded r) \<ge> 3 \<and>
     decoded r ! (length (decoded r) - 2) = LayerTypeEndToEndExtn)"

text \<open>Lines 324-330: the receive time, replaced by the one of a timestamp option.\<close>

definition cRxTime_of :: "externals \<Rightarrow> datagram \<Rightarrow> Time" where
  "cRxTime_of X r =
     (let cRxTime = (case TimestampFromOOBData X (Read_oob r) of
                       Inl err \<Rightarrow> Now_rx r | Inr t \<Rightarrow> t)
      in if hasE2E r
         then (case FindOption (e2eLayer r) OptTypeTimestamp of
                 None \<Rightarrow> cRxTime
               | Some data \<Rightarrow>
                   (case TimestampFromOOBData X data of Inl err \<Rightarrow> cRxTime | Inr t \<Rightarrow> t))
         else cRxTime)"

text \<open>Lines 321-368, the authenticator: the packet passes with the value of
  \<open>authenticated\<close>, or is dropped (\<open>continue\<close>, line 363), or the call panics.\<close>

datatype verdict = Pass bool | Drop | Abort panic

definition spi_of :: "bytes \<Rightarrow> 32 word" where
  "spi_of authOptData =
     or (ucast (authOptData ! 3))
       (or (push_bit 8 (ucast (authOptData ! 2)))
         (or (push_bit 16 (ucast (authOptData ! 1)))
             (push_bit 24 (ucast (authOptData ! 0)))))"

definition authenticate :: "externals \<Rightarrow> bytes option \<Rightarrow> datagram \<Rightarrow> verdict" where
  "authenticate X authKey r =
     (if hasE2E r
      then (case authKey of
              None \<Rightarrow> Pass False
            | Some key \<Rightarrow>
                (case FindOption (e2eLayer r) OptTypeAuthenticator of
                   None \<Rightarrow> Pass False
                 | Some authOptData \<Rightarrow>
                     if length authOptData \<noteq> PacketAuthOptDataLen
                     then Abort (PanicString ''unexpected authenticator option data'')
                     else if spi_of authOptData = PacketAuthServerSPI X \<and>
                             authOptData ! 4 = PacketAuthAlgorithm X
                     then (case ComputeAuthCMAC X \<lparr>Key = key, Header = authOptData,
                                   ScionLayer = scionLayer r, PldType = L4UDP,
                                   Pld = Received (udp_bytes r)\<rparr> of
                             Inl err \<Rightarrow> Abort (PanicError err)
                           | Inr mac \<Rightarrow>
                               if drop PacketAuthMetadataLen authOptData = mac
                               then Pass True else Drop)
                     else Pass False))
      else Pass False)"

text \<open>Lines 370-438: from the decoding of the NTP packet to the result.\<close>

definition process_response ::
  "externals \<Rightarrow> Time option \<Rightarrow> string \<Rightarrow> Packet \<Rightarrow> Time \<Rightarrow> SCIONClient \<Rightarrow> datagram
     \<Rightarrow> Time \<Rightarrow> bool \<Rightarrow> step" where
  "process_response X deadline reference ntpreq cTxTime1 c r cRxTime authenticated =
     (case DecodePacket r of
        Inl err \<Rightarrow> continue_or_return deadline (Now_check r) err c
      | Inr ntpresp \<Rightarrow>
          if \<not> (InterleavedMode c \<and> OriginTime ntpresp = prev_cRxTime c) \<and>
             OriginTime ntpresp \<noteq> TransmitTime ntpreq
          then continue_or_return deadline (Now_check r) errUnexpectedPacket c
          else
            (case ValidateMetadata X ntpresp of
               Some err \<Rightarrow> Return (Failed err) c
             | None \<Rightarrow>
                 (let interleaved = (InterleavedMode c \<and> OriginTime ntpresp = prev_cRxTime c);
                      sRxTime = TimeFromTime64 X (ReceiveTime ntpresp);
                      sTxTime = TimeFromTime64 X (TransmitTime ntpresp);
                      t0 = (if interleaved then TimeFromTime64 X (prev_cTxTime c) else cTxTime1);
                      t1 = (if interleaved then TimeFromTime64 X (prev_sRxTime c) else sRxTime);
                      t2 = sTxTime;
                      t3 = (if interleaved then TimeFromTime64 X (prev_cRxTime c) else cRxTime)
                  in case ValidateTimestamps X t0 t1 t1 t3 of
                       Some err \<Rightarrow> Return (Failed err) c
                     | None \<Rightarrow>
                         (let c' = (if InterleavedMode c
                                    then c\<lparr>prev_reference := reference,
                                           prev_cTxTime := Time64FromTime X cTxTime1,
                                           prev_cRxTime := Time64FromTime X cRxTime,
                                           prev_sRxTime := ReceiveTime ntpresp\<rparr>
                                    else c)
                          in case filter_sample X reference t0 t1 t2 t3 of
                               (off, w) \<Rightarrow>
                                 Return (Measured (Measurement off w interleaved authenticated
                                                     (t0, t1, t2, t3))) c'))))"

text \<open>Lines 254-439: one pass of the loop.\<close>

definition receive ::
  "externals \<Rightarrow> Time option \<Rightarrow> UDPAddr \<Rightarrow> UDPAddr \<Rightarrow> string \<Rightarrow> bytes option \<Rightarrow> Packet \<Rightarrow> Time
     \<Rightarrow> SCIONClient \<Rightarrow> datagram \<Rightarrow> step" where
  "receive X deadline localAddr remoteAddr reference authKey ntpreq cTxTime1 c r =
     (case Read_err r of
        Some err \<Rightarrow> continue_or_return deadline (Now_check r) err c
      | None \<Rightarrow>
          if Read_flags r \<noteq> 0
          then continue_or_return deadline (Now_check r) errUnexpectedPacketFlags c
          else
            (case Decode_err r of
               Some err \<Rightarrow> continue_or_return deadline (Now_check r) err c
             | None \<Rightarrow>
                 if \<not> validType r
                 then continue_or_return deadline (Now_check r) errUnexpectedPacket c
                 else
                   (case validAddr (SrcIA (scionLayer r)) (RawSrcAddr (scionLayer r)) remoteAddr of
                      Inl p \<Rightarrow> Return (Panicked p) c
                    | Inr validSrc \<Rightarrow>
                        (case validAddr (DstIA (scionLayer r)) (RawDstAddr (scionLayer r))
                                localAddr of
                           Inl p \<Rightarrow> Return (Panicked p) c
                         | Inr validDst \<Rightarrow>
                             if \<not> validSrc \<or> \<not> validDst
                             then continue_or_return deadline (Now_check r) errUnexpectedPacket c
                             else
                               (case authenticate X authKey r of
                                  Abort p \<Rightarrow> Return (Panicked p) c
                                | Drop \<Rightarrow> Continue
                                | Pass authenticated \<Rightarrow>
                                    process_response X deadline reference ntpreq cTxTime1 c r
                                      (cRxTime_of X r) authenticated)))))"

text \<open>
  The loop over the datagrams that arrive. It has no bound of its own: a pass that ends
  in \<open>continue\<close> reads again. \<open>None\<close> is a call that has not returned after the datagrams
  of the list.
\<close>

fun receive_loop :: "(datagram \<Rightarrow> step) \<Rightarrow> datagram list \<Rightarrow> (outcome \<times> SCIONClient) option" where
  "receive_loop pass [] = None"
| "receive_loop pass (r # rs) =
     (case pass r of Continue \<Rightarrow> receive_loop pass rs | Return out c \<Rightarrow> Some (out, c))"

subsection \<open>MeasureClockOffsetSCION (lines 63-442)\<close>

text \<open>The result of a call is its outcome and the client afterwards; \<open>sent\<close> is the
  datagram the call writes to the socket, if it gets there.\<close>

definition sent ::
  "externals \<Rightarrow> environment \<Rightarrow> UDPAddr \<Rightarrow> UDPAddr \<Rightarrow> SCIONClient \<Rightarrow> layer list option" where
  "sent X E localAddr remoteAddr c =
     (case ListenUDP_err E of Some err \<Rightarrow> None | None \<Rightarrow>
      case (case Deadline E of None \<Rightarrow> None | Some d \<Rightarrow> SetDeadline_err E) of
        Some err \<Rightarrow> None
      | None \<Rightarrow>
          (case datagram_of X E c localAddr remoteAddr
                  (ntpreq_of X c (reference_of X remoteAddr) (Now0 E)) of
             Inl p \<Rightarrow> None
           | Inr (buffer, authKey) \<Rightarrow> Some buffer))"

definition MeasureClockOffsetSCION ::
  "externals \<Rightarrow> environment \<Rightarrow> UDPAddr \<Rightarrow> UDPAddr \<Rightarrow> SCIONClient
     \<Rightarrow> (outcome \<times> SCIONClient) option" where
  "MeasureClockOffsetSCION X E localAddr remoteAddr c =
     (case ListenUDP_err E of Some err \<Rightarrow> Some (Failed err, c) | None \<Rightarrow>
      case (case Deadline E of None \<Rightarrow> None | Some d \<Rightarrow> SetDeadline_err E) of
        Some err \<Rightarrow> Some (Failed err, c)
      | None \<Rightarrow>
          (let reference = reference_of X remoteAddr;
               cTxTime0 = Now0 E;
               ntpreq = ntpreq_of X c reference cTxTime0
           in case datagram_of X E c localAddr remoteAddr ntpreq of
                Inl p \<Rightarrow> Some (Panicked p, c)
              | Inr (buffer, authKey) \<Rightarrow>
                  (case WriteToUDPAddrPort E of
                     Write_error err \<Rightarrow> Some (Failed err, c)
                   | Write_short \<Rightarrow> Some (Short_write, c)
                   | Write_complete \<Rightarrow>
                       (let cTxTime1 = (case ReadTXTimestamp E of
                                          (t, txid, err) \<Rightarrow>
                                            if err \<noteq> None \<or> txid \<noteq> 0 then Now1 E else t)
                        in receive_loop
                             (receive X (Deadline E) localAddr remoteAddr reference authKey
                                ntpreq cTxTime1 c)
                             (datagrams E)))))"

subsection \<open>A datagram that reaches the NTP packet\<close>

text \<open>
  The guards of lines 257-368 that a datagram passes before \<open>ntp.DecodePacket\<close> is
  called on its payload, with \<open>authenticated\<close> as the authenticator leaves it.
\<close>

definition well_received ::
  "externals \<Rightarrow> UDPAddr \<Rightarrow> UDPAddr \<Rightarrow> bytes option \<Rightarrow> datagram \<Rightarrow> bool \<Rightarrow> bool" where
  "well_received X localAddr remoteAddr authKey r authenticated \<longleftrightarrow>
     Read_err r = None \<and> Read_flags r = 0 \<and> Decode_err r = None \<and> validType r \<and>
     validAddr (SrcIA (scionLayer r)) (RawSrcAddr (scionLayer r)) remoteAddr = Inr True \<and>
     validAddr (DstIA (scionLayer r)) (RawDstAddr (scionLayer r)) localAddr = Inr True \<and>
     authenticate X authKey r = Pass authenticated"

subsection \<open>Collaborators for the examples\<close>

text \<open>
  Timestamps that count nanoseconds, a receive time in the first byte of the control
  data, a MAC of sixteen bytes 7, the classical order of the four timestamps, and the
  plain offset with weight 1000 that the spec gives as the simple \<open>filter\<close>.
\<close>

definition time_of :: "Time64 \<Rightarrow> Time" where
  "time_of u = uint u"

definition time64_of :: "Time \<Rightarrow> Time64" where
  "time64_of t = word_of_int t"

definition parse_stamp :: "bytes \<Rightarrow> error + Time" where
  "parse_stamp b = (case b of [] \<Rightarrow> Inl (errOther ''no timestamp'') | x # xs \<Rightarrow> Inr (uint x))"

definition example_mac :: "MACInput \<Rightarrow> error + bytes" where
  "example_mac m = Inr (replicate 16 7)"

definition accept_metadata :: "Packet \<Rightarrow> error option" where
  "accept_metadata p = None"

definition ordered_stamps :: "Time \<Rightarrow> Time \<Rightarrow> Time \<Rightarrow> Time \<Rightarrow> error option" where
  "ordered_stamps t0 t1 t2 t3 =
     (if t0 \<le> t3 \<and> t1 \<le> t2 then None else Some (errOther ''timestamps out of order''))"

definition plain_offset :: "string \<Rightarrow> Time \<Rightarrow> Time \<Rightarrow> Time \<Rightarrow> Time \<Rightarrow> Duration \<times> float64" where
  "plain_offset reference t0 t1 t2 t3 = (((t1 - t0) + (t2 - t3)) div 2, 1000)"

definition ia_string :: "IA \<Rightarrow> string" where
  "ia_string ia = (if ia = 1 then ''1-ff00:0:110'' else ''1-ff00:0:111'')"

definition host_string :: "bytes \<Rightarrow> nat \<Rightarrow> string" where
  "host_string ip port = (if ip = [10, 0, 0, 2] then ''10.0.0.2:123'' else ''10.0.0.1:0'')"

definition example_externals :: externals where
  "example_externals =
     \<lparr>TimeFromTime64 = time_of, Time64FromTime = time64_of, TimestampFromOOBData = parse_stamp,
      ComputeAuthCMAC = example_mac, ValidateMetadata = accept_metadata,
      ValidateTimestamps = ordered_stamps, filter_sample = plain_offset,
      IA_String = ia_string, Host_String = host_string,
      PacketAuthClientSPI = 1, PacketAuthServerSPI = 2, PacketAuthAlgorithm = 0\<rparr>"

definition example_local :: UDPAddr where
  "example_local = \<lparr>IA = 2, Host_IP = [10, 0, 0, 1], Host_Port = 0\<rparr>"

definition example_remote :: UDPAddr where
  "example_remote = \<lparr>IA = 1, Host_IP = [10, 0, 0, 2], Host_Port = 123\<rparr>"

text \<open>
  A response of the remote host to the local one, received at time 40, with the three
  timestamps given, and the options given in an end-to-end extension if there are any.
\<close>

definition response ::
  "Time64 \<Rightarrow> Time64 \<Rightarrow> Time64 \<Rightarrow> (OptionType \<times> bytes) list \<Rightarrow> datagram" where
  "response origin rx tx opts =
     \<lparr>Read_err = None, Read_flags = 0, Read_oob = [40], Now_rx = 41, Now_check = 42,
      Decode_err = None,
      decoded = (if opts = [] then [LayerTypeSCION, LayerTypeSCIONUDP]
                 else [LayerTypeSCION, LayerTypeEndToEndExtn, LayerTypeSCIONUDP]),
      scionLayer = \<lparr>SrcIA = 1, RawSrcAddr = [10, 0, 0, 2], DstIA = 2,
                     RawDstAddr = [10, 0, 0, 1], NextHdr = L4UDP\<rparr>,
      e2eLayer = opts, udp_bytes = [],
      DecodePacket = Inr (Packet0\<lparr>Version := 4, Mode := 4, OriginTime := origin,
                                   ReceiveTime := rx, TransmitTime := tx\<rparr>)\<rparr>"

definition no_error :: "layer \<Rightarrow> error option" where
  "no_error l = None"

text \<open>A call at time 10 whose datagram leaves at time 11.\<close>

definition example_environment ::
  "Time option \<Rightarrow> error + bytes \<Rightarrow> datagram list \<Rightarrow> environment" where
  "example_environment deadline key ds =
     \<lparr>ListenUDP_err = None, Deadline = deadline, SetDeadline_err = None, LocalPort = 40000,
      Now0 = 10, SetSrcAddr_err = None, SetDstAddr_err = None, SetPath_err = None,
      SerializeTo_err = no_error, FetchHostHostKey = key,
      WriteToUDPAddrPort = Write_complete, ReadTXTimestamp = (11, 0, None), Now1 = 12,
      datagrams = ds\<rparr>"

text \<open>A client in interleaved mode after an exchange with the remote host: sent at
  time 1, received by the server at time 2, answered and received at time 4.\<close>

definition interleaved_client :: "bool \<Rightarrow> SCIONClient" where
  "interleaved_client fetcher =
     \<lparr>InterleavedMode = True, DRKeyFetcher = fetcher, prev_reference = ''1-ff00:0:110,10.0.0.2:123'',
      prev_cTxTime = 1, prev_cRxTime = 4, prev_sRxTime = 2\<rparr>"

section \<open>Properties of core/sync/sync.go\<close>

lemma len_deposit: "length (deposit env t cs i offs) = length offs"
  by (induction cs arbitrary: i offs) simp_all

lemma deposit_all:
  "length offs = i + length cs \<Longrightarrow> deposit env t cs i offs = take i offs @ map (slot env t) cs"
proof (induction cs arbitrary: i offs)
  case Nil
  then show ?case by simp
next
  case (Cons c cs)
  then show ?case
    by (simp add: take_Suc_conv_app_nth upd_conv_take_nth_drop)
qed

lemma len_MeasureClockOffsets: "len (MeasureClockOffsets env t clks offs) = len offs"
  by (cases offs) (simp_all add: MeasureClockOffsets_def len_def elems_def len_deposit)











lemma fst_measureRef_emit:
  "fst (measureOffsetToRefClocks D env t (emit cs (s\<lparr>corrGauge := v\<rparr>))) =
   fst (measureOffsetToRefClocks D env t s)"
  by (simp add: measureOffsetToRefClocks_def emit_def Let_def)

lemma fst_measureNet_emit:
  "fst (measureOffsetToNetClocks D env t (emit cs (s\<lparr>corrGauge := v\<rparr>))) =
   fst (measureOffsetToNetClocks D env t s)"
  by (simp add: measureOffsetToNetClocks_def emit_def Let_def)

text \<open>
  Claim C2. In a round of \<open>RunLocalClockSync\<close> (cutoff 0) or of \<open>RunGlobalClockSync\<close>
  (cutoff 1 microsecond) whose aggregated offset is at most the cutoff in absolute value,
  the round sets the gauge to 0, measures, and sleeps for the interval: no sample goes to
  either estimator, the local clock is not stepped or adjusted, the estimators' states are
  as before and the gauge reads 0.
\<close>
theorem dead_zone_round:
  "(\<bar>fst (measureOffsetToRefClocks D env refClkTimeout s)\<bar> \<le> refClkCutoff \<longrightarrow>
      calls (RunLocalClockSync_round D useTheilSen maxCorr env s) =
        calls s @ [Call_corrGauge_Set 0, Call_MeasureClockOffsets refClkTimeout,
                   Call_Sleep refClkInterval] \<and>
      theilSen (RunLocalClockSync_round D useTheilSen maxCorr env s) = theilSen s \<and>
      pll (RunLocalClockSync_round D useTheilSen maxCorr env s) = pll s \<and>
      corrGauge (RunLocalClockSync_round D useTheilSen maxCorr env s) = 0) \<and>
   (\<bar>fst (measureOffsetToNetClocks D env netClkTimeout s)\<bar> \<le> netClkCutoff \<longrightarrow>
      calls (RunGlobalClockSync_round D useTheilSen maxCorr env s) =
        calls s @ [Call_corrGauge_Set 0, Call_MeasureClockOffsets netClkTimeout,
                   Call_Sleep netClkInterval] \<and>
      theilSen (RunGlobalClockSync_round D useTheilSen maxCorr env s) = theilSen s \<and>
      pll (RunGlobalClockSync_round D useTheilSen maxCorr env s) = pll s \<and>
      corrGauge (RunGlobalClockSync_round D useTheilSen maxCorr env s) = 0)"
proof (intro conjI impI)
  assume z: "\<bar>fst (measureOffsetToRefClocks D env refClkTimeout s)\<bar> \<le> refClkCutoff"
  let ?s0 = "emit [Call_corrGauge_Set 0] (s\<lparr>corrGauge := 0\<rparr>)"
  obtain corr s1 where m: "measureOffsetToRefClocks D env refClkTimeout ?s0 = (corr, s1)"
    by (cases "measureOffsetToRefClocks D env refClkTimeout ?s0")
  have "fst (measureOffsetToRefClocks D env refClkTimeout ?s0) =
        fst (measureOffsetToRefClocks D env refClkTimeout s)"
    by (rule fst_measureRef_emit)
  with m have "corr = fst (measureOffsetToRefClocks D env refClkTimeout s)"
    by simp
  with z have dz: "\<not> Abs corr > refClkCutoff" by (simp add: Abs_def)
  have r: "RunLocalClockSync_round D useTheilSen maxCorr env s = emit [Call_Sleep refClkInterval] s1"
    using m dz by (simp add: RunLocalClockSync_round_def)
  have s1: "s1 = emit [Call_MeasureClockOffsets refClkTimeout]
      (?s0\<lparr>registry := (registry ?s0)\<lparr>refClkOffsets :=
         MeasureClockOffsets env refClkTimeout (refClks (registry ?s0)) (refClkOffsets (registry ?s0))\<rparr>\<rparr>)"
    using m by (simp add: measureOffsetToRefClocks_def Let_def)
  show "calls (RunLocalClockSync_round D useTheilSen maxCorr env s) =
        calls s @ [Call_corrGauge_Set 0, Call_MeasureClockOffsets refClkTimeout,
                   Call_Sleep refClkInterval]"
    unfolding r s1 by (simp add: emit_def)
  show "theilSen (RunLocalClockSync_round D useTheilSen maxCorr env s) = theilSen s"
    unfolding r s1 by (simp add: emit_def)
  show "pll (RunLocalClockSync_round D useTheilSen maxCorr env s) = pll s"
    unfolding r s1 by (simp add: emit_def)
  show "corrGauge (RunLocalClockSync_round D useTheilSen maxCorr env s) = 0"
    unfolding r s1 by (simp add: emit_def)
next
  assume z: "\<bar>fst (measureOffsetToNetClocks D env netClkTimeout s)\<bar> \<le> netClkCutoff"
  let ?s0 = "emit [Call_corrGauge_Set 0] (s\<lparr>corrGauge := 0\<rparr>)"
  obtain corr s1 where m: "measureOffsetToNetClocks D env netClkTimeout ?s0 = (corr, s1)"
    by (cases "measureOffsetToNetClocks D env netClkTimeout ?s0")
  have "fst (measureOffsetToNetClocks D env netClkTimeout ?s0) =
        fst (measureOffsetToNetClocks D env netClkTimeout s)"
    by (rule fst_measureNet_emit)
  with m have "corr = fst (measureOffsetToNetClocks D env netClkTimeout s)"
    by simp
  with z have dz: "\<not> Abs corr > netClkCutoff" by (simp add: Abs_def)
  have r: "RunGlobalClockSync_round D useTheilSen maxCorr env s = emit [Call_Sleep netClkInterval] s1"
    using m dz by (simp add: RunGlobalClockSync_round_def)
  have s1: "s1 = emit [Call_MeasureClockOffsets netClkTimeout]
      (?s0\<lparr>registry := (registry ?s0)\<lparr>netClkOffsets :=
         MeasureClockOffsets env netClkTimeout (netClks (registry ?s0)) (netClkOffsets (registry ?s0))\<rparr>\<rparr>)"
    using m by (simp add: measureOffsetToNetClocks_def Let_def)
  show "calls (RunGlobalClockSync_round D useTheilSen maxCorr env s) =
        calls s @ [Call_corrGauge_Set 0, Call_MeasureClockOffsets netClkTimeout,
                   Call_Sleep netClkInterval]"
    unfolding r s1 by (simp add: emit_def)
  show "theilSen (RunGlobalClockSync_round D useTheilSen maxCorr env s) = theilSen s"
    unfolding r s1 by (simp add: emit_def)
  show "pll (RunGlobalClockSync_round D useTheilSen maxCorr env s) = pll s"
    unfolding r s1 by (simp add: emit_def)
  show "corrGauge (RunGlobalClockSync_round D useTheilSen maxCorr env s) = 0"
    unfolding r s1 by (simp add: emit_def)
qed

text \<open>
  A reference round with one source at offset 0, and a network round with one source at
  2 microseconds: with the local anchor the midpoint is 1 microsecond, the cutoff itself.
\<close>
theorem dead_zone_round_witness:
  "\<bar>fst (measureOffsetToRefClocks (example_deps 10000) (answers [0]) refClkTimeout
        (example_state (Some [ExternalClock 0]) None))\<bar> \<le> refClkCutoff \<and>
   calls (RunLocalClockSync_round (example_deps 10000) False 12500 (answers [0])
        (example_state (Some [ExternalClock 0]) None)) =
     [Call_corrGauge_Set 0, Call_MeasureClockOffsets 1000000000, Call_Sleep 2000000000] \<and>
   \<bar>fst (measureOffsetToNetClocks (example_deps 10000) (answers [2000]) netClkTimeout
        (example_state None (Some [ExternalClock 0])))\<bar> \<le> netClkCutoff \<and>
   calls (RunGlobalClockSync_round (example_deps 10000) True 25000 (answers [2000])
        (example_state None (Some [ExternalClock 0]))) =
     [Call_corrGauge_Set 0, Call_MeasureClockOffsets 5000000000, Call_Sleep 60000000000]"
proof -
  have h1: "\<bar>fst (measureOffsetToRefClocks (example_deps 10000) (answers [0]) refClkTimeout
        (example_state (Some [ExternalClock 0]) None))\<bar> \<le> refClkCutoff"
    by code_simp
  have h2: "\<bar>fst (measureOffsetToNetClocks (example_deps 10000) (answers [2000]) netClkTimeout
        (example_state None (Some [ExternalClock 0])))\<bar> \<le> netClkCutoff"
    by code_simp
  have c: "calls (example_state r n) = []" for r n
    by (simp add: example_state_def state0_def split: sum.splits)
  show ?thesis
    using h1 h2
      dead_zone_round [of "example_deps 10000" "answers [0]"
        "example_state (Some [ExternalClock 0]) None" False 12500]
      dead_zone_round [of "example_deps 10000" "answers [2000]"
        "example_state None (Some [ExternalClock 0])" True 25000]
    by (simp add: c refClkTimeout_def refClkInterval_def netClkTimeout_def netClkInterval_def
        Second_def)
qed


lemma registry_emit [simp]: "registry (emit cs s) = registry s"
  by (simp add: emit_def)

lemma calls_emit [simp]: "calls (emit cs s) = calls s @ cs"
  by (simp add: emit_def)

lemma registry_discipline [simp]:
  "registry (discipline D useTheilSen maxCorr interval corr s) = registry s"
  by (simp add: discipline_def Let_def split: prod.splits)

lemma measureRef_eq:
  "measureOffsetToRefClocks D env t s =
     (Median D (elems (MeasureClockOffsets env t (refClks (registry s)) (refClkOffsets (registry s)))),
      emit [Call_MeasureClockOffsets t]
        (s\<lparr>registry := (registry s)\<lparr>refClkOffsets :=
           MeasureClockOffsets env t (refClks (registry s)) (refClkOffsets (registry s))\<rparr>\<rparr>))"
  by (simp add: measureOffsetToRefClocks_def Let_def)

lemma measureNet_eq:
  "measureOffsetToNetClocks D env t s =
     (FaultTolerantMidpoint D (elems (MeasureClockOffsets env t (netClks (registry s)) (netClkOffsets (registry s)))),
      emit [Call_MeasureClockOffsets t]
        (s\<lparr>registry := (registry s)\<lparr>netClkOffsets :=
           MeasureClockOffsets env t (netClks (registry s)) (netClkOffsets (registry s))\<rparr>\<rparr>))"
  by (simp add: measureOffsetToNetClocks_def Let_def)

lemma registry_SyncToRefClocks:
  "registry (SyncToRefClocks D env s) =
     (registry s)\<lparr>refClkOffsets :=
        MeasureClockOffsets env refClkTimeout (refClks (registry s)) (refClkOffsets (registry s))\<rparr>"
  by (simp add: SyncToRefClocks_def measureRef_eq)

lemma registry_local_round:
  "registry (RunLocalClockSync_round D u m env s) =
     (registry s)\<lparr>refClkOffsets :=
        MeasureClockOffsets env refClkTimeout (refClks (registry s)) (refClkOffsets (registry s))\<rparr>"
  by (simp add: RunLocalClockSync_round_def measureRef_eq)

lemma registry_global_round:
  "registry (RunGlobalClockSync_round D u m env s) =
     (registry s)\<lparr>netClkOffsets :=
        MeasureClockOffsets env netClkTimeout (netClks (registry s)) (netClkOffsets (registry s))\<rparr>"
  by (simp add: RunGlobalClockSync_round_def measureNet_eq)

lemma operate_shape:
  assumes "operate D op s = Inr s'"
    and "refClks (registry s) \<noteq> None \<or> netClks (registry s) \<noteq> None \<or> \<not> is_RegisterClocks op"
  shows "same_shape (registry s) (registry s')"
proof (cases op)
  case (Op_RegisterClocks r n)
  with assms show ?thesis
    by (auto simp: RegisterClocks_def split: sum.splits if_splits)
next
  case (Op_SyncToRefClocks env)
  with assms show ?thesis
    by (auto simp: same_shape_def registry_SyncToRefClocks len_MeasureClockOffsets)
next
  case (Op_RunLocalClockSync_round u m env)
  with assms show ?thesis
    by (auto simp: same_shape_def registry_local_round len_MeasureClockOffsets)
next
  case (Op_RunGlobalClockSync_round u m env)
  with assms show ?thesis
    by (auto simp: same_shape_def registry_global_round len_MeasureClockOffsets)
qed

lemma operate_all_shape:
  assumes "operate_all D ops s = Inr s'"
    and "refClks (registry s) \<noteq> None \<or> netClks (registry s) \<noteq> None \<or>
         list_all (\<lambda>op. \<not> is_RegisterClocks op) ops"
  shows "same_shape (registry s) (registry s')"
  using assms
proof (induction ops arbitrary: s)
  case Nil
  then show ?case by (simp add: same_shape_def)
next
  case (Cons op ops)
  from Cons.prems(1) obtain s1 where o: "operate D op s = Inr s1"
    and r: "operate_all D ops s1 = Inr s'"
    by (auto split: sum.splits)
  from Cons.prems(2) have "refClks (registry s) \<noteq> None \<or> netClks (registry s) \<noteq> None \<or>
      \<not> is_RegisterClocks op"
    by auto
  with o have sh: "same_shape (registry s) (registry s1)"
    by (rule operate_shape)
  with Cons.prems(2) have "refClks (registry s1) \<noteq> None \<or> netClks (registry s1) \<noteq> None \<or>
      list_all (\<lambda>op. \<not> is_RegisterClocks op) ops"
    by (auto simp: same_shape_def)
  with r have "same_shape (registry s1) (registry s')"
    by (rule Cons.IH)
  with sh show ?case by (simp add: same_shape_def)
qed

lemma RegisterClocks_Inr:
  assumes "RegisterClocks refClocks netClocks g = Inr g'"
  shows "refClks g = None" "netClks g = None" "refClks g' = refClocks"
    "netClks g' = (if len netClocks \<noteq> 0 then Some (elems netClocks @ [localReferenceClock]) else netClocks)"
    "refClkOffsets g' = Some (replicate (len refClocks) 0)"
    "netClkOffsets g' = Some (replicate (len (netClks g')) 0)"
  using assms
  by (auto simp: RegisterClocks_def Let_def append_slice_def make_durations_def split: if_splits)

text \<open>
  Claim C8, as amended. After a \<open>RegisterClocks(refClocks, netClocks)\<close> that returns, the
  network clocks are \<open>netClocks\<close> followed by one \<open>localReferenceClock\<close> (which measures
  offset 0 and no error) when \<open>netClocks\<close> is not empty, and \<open>netClocks\<close> itself when it
  is; each scratch slice is as long as its clocks; and the four lengths stay what they are
  through every sequence of operations of the package that does not panic, provided that
  \<open>refClocks\<close> and \<open>netClocks\<close> were not both \<open>nil\<close> or that no operation of the
  sequence is a further \<open>RegisterClocks\<close>.
\<close>
theorem RegisterClocks_registry:
  assumes "RegisterClocks refClocks netClocks g = Inr g'"
    and "registry s = g'"
    and "operate_all D ops s = Inr s'"
    and "refClocks \<noteq> None \<or> netClocks \<noteq> None \<or> list_all (\<lambda>op. \<not> is_RegisterClocks op) ops"
  shows "refClks g' = refClocks \<and>
    netClks g' = (if len netClocks \<noteq> 0
                  then Some (elems netClocks @ [localReferenceClock]) else netClocks) \<and>
    MeasureClockOffset env timeout localReferenceClock = (0, None) \<and>
    len (refClkOffsets g') = len (refClks g') \<and>
    len (netClkOffsets g') = len (netClks g') \<and>
    len (refClks (registry s')) = len (refClks g') \<and>
    len (refClkOffsets (registry s')) = len (refClkOffsets g') \<and>
    len (netClks (registry s')) = len (netClks g') \<and>
    len (netClkOffsets (registry s')) = len (netClkOffsets g')"
proof -
  note R = RegisterClocks_Inr [OF assms(1)]
  have "refClks (registry s) \<noteq> None \<or> netClks (registry s) \<noteq> None \<or>
      list_all (\<lambda>op. \<not> is_RegisterClocks op) ops"
    using assms(2,4) R(3,4) by (auto split: if_splits)
  with assms(3) have "same_shape (registry s) (registry s')"
    by (rule operate_all_shape)
  then have sh: "same_shape g' (registry s')"
    using assms(2) by simp
  have l1: "len (refClkOffsets g') = len (refClks g')"
    using R(3,5) by (simp add: len_def elems_def)
  have l2: "len (netClkOffsets g') = len (netClks g')"
    using R(6) by (simp add: len_def elems_def)
  have m: "MeasureClockOffset env timeout localReferenceClock = (0, None)"
    by (simp add: MeasureClockOffset_def)
  show ?thesis
    using R(3,4) l1 l2 m sh by (simp add: same_shape_def)
qed

text \<open>
  Claim C9, as amended. The first \<open>RegisterClocks\<close> of a program does not panic, whatever
  its arguments; and once a \<open>RegisterClocks\<close> whose two arguments were not both \<open>nil\<close>
  has returned, every later \<open>RegisterClocks\<close> panics with "reference clocks already
  registered", after any operations of the package in between.
\<close>
theorem RegisterClocks_once:
  "(\<exists>g1. RegisterClocks firstRef firstNet registry0 = Inr g1) \<and>
   (RegisterClocks refClocks netClocks g = Inr g' \<longrightarrow>
    refClocks \<noteq> None \<or> netClocks \<noteq> None \<longrightarrow>
    registry s = g' \<longrightarrow>
    operate_all D ops s = Inr s' \<longrightarrow>
    RegisterClocks refClocks' netClocks' (registry s') = Inl ''reference clocks already registered'')"
proof (intro conjI impI)
  show "\<exists>g1. RegisterClocks firstRef firstNet registry0 = Inr g1"
    by (simp add: RegisterClocks_def registry0_def Let_def)
next
  assume a: "RegisterClocks refClocks netClocks g = Inr g'"
    and b: "refClocks \<noteq> None \<or> netClocks \<noteq> None"
    and c: "registry s = g'"
    and d: "operate_all D ops s = Inr s'"
  note R = RegisterClocks_Inr [OF a]
  have reg: "refClks (registry s) \<noteq> None \<or> netClks (registry s) \<noteq> None"
    using b c R(3,4) by (auto split: if_splits)
  then have "refClks (registry s) \<noteq> None \<or> netClks (registry s) \<noteq> None \<or>
      list_all (\<lambda>op. \<not> is_RegisterClocks op) ops"
    by blast
  with d have "same_shape (registry s) (registry s')"
    by (rule operate_all_shape)
  with reg have "refClks (registry s') \<noteq> None \<or> netClks (registry s') \<noteq> None"
    by (simp add: same_shape_def)
  then show "RegisterClocks refClocks' netClocks' (registry s') =
      Inl ''reference clocks already registered''"
    by (simp add: RegisterClocks_def)
qed



text \<open>
  Claim C10. \<open>SyncToRefClocks\<close> measures the reference clocks once, under the timeout of
  one second, and then calls \<open>lclk.Step\<close> once, with the median of the offsets, when the
  median is not 0, and makes no call on the local clock when it is 0. With a scratch slice
  as long as the clocks, the offsets are those of the sources, one for each, in order.
\<close>
theorem SyncToRefClocks_steps_once:
  "(let g = registry s;
        offs = elems (MeasureClockOffsets env Second (refClks g) (refClkOffsets g));
        corr = Median D offs
    in calls (SyncToRefClocks D env s) =
         calls s @ Call_MeasureClockOffsets Second # (if corr \<noteq> 0 then [Call_Step corr] else []) \<and>
       (len (refClkOffsets g) = len (refClks g) \<longrightarrow>
          offs = map (slot env Second) (elems (refClks g))))"
proof -
  let ?g = "registry s"
  have "elems (MeasureClockOffsets env Second (refClks ?g) (refClkOffsets ?g)) =
      map (slot env Second) (elems (refClks ?g))"
    if "len (refClkOffsets ?g) = len (refClks ?g)"
  proof (cases "refClkOffsets ?g")
    case None
    with that show ?thesis
      by (simp add: MeasureClockOffsets_def len_def elems_def)
  next
    case (Some offs)
    with that have "length offs = 0 + length (elems (refClks ?g))"
      by (simp add: len_def elems_def)
    then have "deposit env Second (elems (refClks ?g)) 0 offs =
        take 0 offs @ map (slot env Second) (elems (refClks ?g))"
      by (rule deposit_all)
    with Some show ?thesis
      by (simp add: MeasureClockOffsets_def elems_def)
  qed
  then show ?thesis
    by (simp add: Let_def SyncToRefClocks_def measureRef_eq refClkTimeout_def)
qed


lemma theilSen_samples_simps [simp]:
  "theilSen_samples [] = []"
  "theilSen_samples (c # cs) = theilSen_sample c @ theilSen_samples cs"
  "theilSen_samples (xs @ ys) = theilSen_samples xs @ theilSen_samples ys"
  by (simp_all add: theilSen_samples_def)

lemma pll_samples_simps [simp]:
  "pll_samples [] = []"
  "pll_samples (c # cs) = pll_sample c @ pll_samples cs"
  "pll_samples (xs @ ys) = pll_samples xs @ pll_samples ys"
  by (simp_all add: pll_samples_def)












text \<open>
  Two sources at +1 s and +1.2 s: one step by 1.1 s. Two sources at -5 ns and +5 ns: no
  step.
\<close>
theorem SyncToRefClocks_steps_once_witness:
  "len (refClkOffsets (registry (example_state (Some [ExternalClock 0, ExternalClock 2]) None))) =
     len (refClks (registry (example_state (Some [ExternalClock 0, ExternalClock 2]) None))) \<and>
   calls (SyncToRefClocks (example_deps 0) (answers [1000000000, 0, 1200000000])
            (example_state (Some [ExternalClock 0, ExternalClock 2]) None)) =
     [Call_MeasureClockOffsets 1000000000, Call_Step 1100000000] \<and>
   calls (SyncToRefClocks (example_deps 0) (answers [- 5, 0, 5])
            (example_state (Some [ExternalClock 0, ExternalClock 2]) None)) =
     [Call_MeasureClockOffsets 1000000000]"
proof -
  let ?s = "example_state (Some [ExternalClock 0, ExternalClock 2]) None"
  have h: "len (refClkOffsets (registry ?s)) = len (refClks (registry ?s))"
    by code_simp
  have c: "calls ?s = []"
    by (simp add: example_state_def state0_def split: sum.splits)
  have r: "elems (refClks (registry ?s)) = [ExternalClock 0, ExternalClock 2]"
    by code_simp
  have m1: "Median (example_deps 0)
      (map (slot (answers [1000000000, 0, 1200000000]) Second) [ExternalClock 0, ExternalClock 2])
      = 1100000000"
    by code_simp
  have m2: "Median (example_deps 0)
      (map (slot (answers [- 5, 0, 5]) Second) [ExternalClock 0, ExternalClock 2]) = 0"
    by code_simp
  note T1 = SyncToRefClocks_steps_once [of ?s "answers [1000000000, 0, 1200000000]" "example_deps 0"]
  note T2 = SyncToRefClocks_steps_once [of ?s "answers [- 5, 0, 5]" "example_deps 0"]
  have o1: "elems (MeasureClockOffsets (answers [1000000000, 0, 1200000000]) Second
        (refClks (registry ?s)) (refClkOffsets (registry ?s))) =
      map (slot (answers [1000000000, 0, 1200000000]) Second) [ExternalClock 0, ExternalClock 2]"
    using T1 h unfolding Let_def r by blast
  have o2: "elems (MeasureClockOffsets (answers [- 5, 0, 5]) Second
        (refClks (registry ?s)) (refClkOffsets (registry ?s))) =
      map (slot (answers [- 5, 0, 5]) Second) [ExternalClock 0, ExternalClock 2]"
    using T2 h unfolding Let_def r by blast
  have "calls (SyncToRefClocks (example_deps 0) (answers [1000000000, 0, 1200000000]) ?s) =
     [Call_MeasureClockOffsets 1000000000, Call_Step 1100000000]"
    using T1 unfolding Let_def o1 m1 c by (simp add: Second_def)
  moreover
  have "calls (SyncToRefClocks (example_deps 0) (answers [- 5, 0, 5]) ?s) =
     [Call_MeasureClockOffsets 1000000000]"
    using T2 unfolding Let_def o2 m2 c by (simp add: Second_def)
  ultimately show ?thesis
    using h by simp
qed

lemma len_Some: "len (Some xs) = length xs"
  by (simp add: len_def elems_def)

text \<open>One reference clock and one network clock, then a startup step and a network round.\<close>
theorem RegisterClocks_registry_witness:
  "RegisterClocks (Some [ExternalClock 0]) (Some [ExternalClock 2]) registry0 =
     Inr (registry (example_state (Some [ExternalClock 0]) (Some [ExternalClock 2]))) \<and>
   operate_all (example_deps 0)
     [Op_SyncToRefClocks (answers [7]), Op_RunGlobalClockSync_round True 25000 (answers [0, 0, 9])]
     (example_state (Some [ExternalClock 0]) (Some [ExternalClock 2])) =
     Inr (after [Op_SyncToRefClocks (answers [7]),
                 Op_RunGlobalClockSync_round True 25000 (answers [0, 0, 9])]
            (example_state (Some [ExternalClock 0]) (Some [ExternalClock 2]))) \<and>
   netClks (registry (example_state (Some [ExternalClock 0]) (Some [ExternalClock 2]))) =
     Some [ExternalClock 2, localReferenceClock] \<and>
   len (refClkOffsets (registry (after [Op_SyncToRefClocks (answers [7]),
                 Op_RunGlobalClockSync_round True 25000 (answers [0, 0, 9])]
            (example_state (Some [ExternalClock 0]) (Some [ExternalClock 2]))))) = 1 \<and>
   len (netClkOffsets (registry (after [Op_SyncToRefClocks (answers [7]),
                 Op_RunGlobalClockSync_round True 25000 (answers [0, 0, 9])]
            (example_state (Some [ExternalClock 0]) (Some [ExternalClock 2]))))) = 2"
proof -
  let ?s = "example_state (Some [ExternalClock 0]) (Some [ExternalClock 2])"
  let ?ops = "[Op_SyncToRefClocks (answers [7]),
               Op_RunGlobalClockSync_round True 25000 (answers [0, 0, 9])]"
  have h1: "RegisterClocks (Some [ExternalClock 0]) (Some [ExternalClock 2]) registry0 =
      Inr (registry ?s)"
    by code_simp
  have h3: "operate_all (example_deps 0) ?ops ?s = Inr (after ?ops ?s)"
    by code_simp
  have h4: "Some [ExternalClock 0] \<noteq> None \<or> Some [ExternalClock 2] \<noteq> None \<or>
      list_all (\<lambda>op. \<not> is_RegisterClocks op) ?ops"
    by simp
  note T = RegisterClocks_registry [OF h1 refl h3 h4, of "answers []" 0]
  from T have r: "refClks (registry ?s) = Some [ExternalClock 0]"
    by simp
  from T have n: "netClks (registry ?s) = Some [ExternalClock 2, localReferenceClock]"
    by (simp add: len_Some elems_def)
  from T have "len (refClkOffsets (registry (after ?ops ?s))) = len (refClks (registry ?s))"
    by simp
  then have a: "len (refClkOffsets (registry (after ?ops ?s))) = 1"
    by (simp add: r len_Some)
  from T have "len (netClkOffsets (registry (after ?ops ?s))) = len (netClks (registry ?s))"
    by simp
  then have b: "len (netClkOffsets (registry (after ?ops ?s))) = 2"
    by (simp add: n len_Some)
  from h1 h3 n a b show ?thesis
    by (intro conjI)
qed

text \<open>
  Claim C8 as it is stated fails: after \<open>RegisterClocks(nil, nil)\<close> has returned, with no
  reference clock, a second \<open>RegisterClocks\<close> returns too and leaves one.
\<close>
theorem RegisterClocks_registry_counterexample:
  "operate_all (example_deps 0) [Op_RegisterClocks None None] state0 =
     Inr (state0\<lparr>registry := \<lparr>refClks = None, refClkOffsets = Some [],
                                netClks = None, netClkOffsets = Some []\<rparr>\<rparr>) \<and>
   len (refClks \<lparr>refClks = None, refClkOffsets = Some [],
                 netClks = None, netClkOffsets = Some []\<rparr> :: nat ReferenceClock slice) = 0 \<and>
   operate_all (example_deps 0)
     [Op_RegisterClocks None None, Op_RegisterClocks (Some [localReferenceClock]) None] state0 =
     Inr (state0\<lparr>registry := \<lparr>refClks = Some [localReferenceClock], refClkOffsets = Some [0],
                                netClks = None, netClkOffsets = Some []\<rparr>\<rparr>) \<and>
   len (refClks \<lparr>refClks = Some [localReferenceClock], refClkOffsets = Some [0],
                 netClks = None, netClkOffsets = Some []\<rparr> :: nat ReferenceClock slice) = 1"
  by code_simp

text \<open>No reference clocks and an empty, non-\<open>nil\<close> slice of network clocks.\<close>
theorem RegisterClocks_once_witness:
  "RegisterClocks None (Some []) registry0 = Inr (registry (example_state None (Some []))) \<and>
   operate_all (example_deps 0) [Op_SyncToRefClocks (answers [])] (example_state None (Some [])) =
     Inr (after [Op_SyncToRefClocks (answers [])] (example_state None (Some []))) \<and>
   RegisterClocks (Some [ExternalClock 3]) None
     (registry (after [Op_SyncToRefClocks (answers [])] (example_state None (Some [])))) =
     Inl ''reference clocks already registered''"
proof -
  let ?s = "example_state None (Some [])"
  let ?ops = "[Op_SyncToRefClocks (answers [])]"
  have h1: "RegisterClocks None (Some []) registry0 = Inr (registry ?s)"
    by code_simp
  have h3: "operate_all (example_deps 0) ?ops ?s = Inr (after ?ops ?s)"
    by code_simp
  note T = RegisterClocks_once [where refClocks = None and netClocks = "Some []" and g = registry0
        and g' = "registry ?s" and s = ?s and D = "example_deps 0" and ops = ?ops
        and s' = "after ?ops ?s" and refClocks' = "Some [ExternalClock 3]" and netClocks' = None
        and firstRef = None and firstNet = None]
  have "RegisterClocks (Some [ExternalClock 3]) None (registry (after ?ops ?s)) =
      Inl ''reference clocks already registered''"
    using T h1 h3 by blast
  with h1 h3 show ?thesis
    by (intro conjI)
qed

text \<open>
  Claim C9 as it is stated fails: a \<open>RegisterClocks(nil, nil)\<close> after a
  \<open>RegisterClocks(nil, nil)\<close> returns.
\<close>
theorem RegisterClocks_once_counterexample:
  "operate_all (example_deps 0) [Op_RegisterClocks None None, Op_RegisterClocks None None] state0 =
     Inr (state0\<lparr>registry := \<lparr>refClks = None, refClkOffsets = Some [],
                                netClks = None, netClkOffsets = Some []\<rparr>\<rparr>)"
  by code_simp

section \<open>Properties of go/driver/ntp/scion.go\<close>

lemma receive_well_received:
  assumes "well_received X localAddr remoteAddr authKey r a"
  shows "receive X deadline localAddr remoteAddr reference authKey ntpreq cTxTime c r =
    process_response X deadline reference ntpreq cTxTime c r (cRxTime_of X r) a"
  using assms by (simp add: receive_def well_received_def)

lemma Time_Sub_le_Second:
  "Time_Sub t u \<le> Second \<longleftrightarrow> t - u \<le> Second"
  by (auto simp: Time_Sub_def Second_def)

lemma sent_payload:
  assumes "sent X E localAddr remoteAddr c = Some buffer"
  shows "last buffer = Layer_Payload (ntpreq_of X c (reference_of X remoteAddr) (Now0 E))"
  using assms
  by (auto simp: sent_def datagram_of_def serialize_def Let_def
      split: option.splits sum.splits if_splits prod.splits)

text \<open>
  Claim C4. With \<open>InterleavedMode\<close> set, the reference of the call equal to the stored
  one, and the stored client transmit time at most one second before this round's, the
  request carries the stored \<open>sRxTime\<close>, \<open>cRxTime\<close> and \<open>cTxTime\<close> as origin, receive
  and transmit; in every other case origin and receive are zero and transmit is this
  round's transmit time. A client that has stored no exchange has the empty reference,
  which no call has. The packet is the payload of the datagram that is written.
\<close>
theorem request_timestamps:
  "(InterleavedMode c \<and> reference = prev_reference c \<and>
      txTime - TimeFromTime64 X (prev_cTxTime c) \<le> Second \<longrightarrow>
      OriginTime (ntpreq_of X c reference txTime) = prev_sRxTime c \<and>
      ReceiveTime (ntpreq_of X c reference txTime) = prev_cRxTime c \<and>
      TransmitTime (ntpreq_of X c reference txTime) = prev_cTxTime c) \<and>
   (\<not> (InterleavedMode c \<and> reference = prev_reference c \<and>
        txTime - TimeFromTime64 X (prev_cTxTime c) \<le> Second) \<longrightarrow>
      OriginTime (ntpreq_of X c reference txTime) = 0 \<and>
      ReceiveTime (ntpreq_of X c reference txTime) = 0 \<and>
      TransmitTime (ntpreq_of X c reference txTime) = Time64FromTime X txTime) \<and>
   (prev_reference c = [] \<longrightarrow> reference_of X remoteAddr \<noteq> prev_reference c) \<and>
   (sent X E localAddr remoteAddr c = Some buffer \<longrightarrow>
      last buffer = Layer_Payload (ntpreq_of X c (reference_of X remoteAddr) (Now0 E)))"
  by (auto simp: ntpreq_of_def Let_def Packet0_def Time_Sub_le_Second reference_of_def
      dest: sent_payload)


text \<open>
  Claim C3. For a datagram that reaches the NTP packet: with \<open>InterleavedMode\<close> set and
  the origin of the response equal to the stored \<open>cRxTime\<close>, the exchange is interleaved
  and, once the two validations pass, the timestamps of the offset are the stored
  \<open>cTxTime\<close>, the stored \<open>sRxTime\<close>, the transmit time of this response and the stored
  \<open>cRxTime\<close>; a response that is not interleaved and whose origin is not the transmit time
  of this round's request is an unexpected packet (the loop goes on before the deadline, and
  returns \<open>errUnexpectedPacket\<close> otherwise); one whose origin is that transmit time is a
  basic exchange.
\<close>
theorem response_timestamps:
  assumes "well_received X localAddr remoteAddr authKey r a"
    and "DecodePacket r = Inr ntpresp"
  shows "(InterleavedMode c \<and> OriginTime ntpresp = prev_cRxTime c \<longrightarrow>
      ValidateMetadata X ntpresp = None \<longrightarrow>
      ValidateTimestamps X (TimeFromTime64 X (prev_cTxTime c)) (TimeFromTime64 X (prev_sRxTime c))
        (TimeFromTime64 X (prev_sRxTime c)) (TimeFromTime64 X (prev_cRxTime c)) = None \<longrightarrow>
      (\<exists>off w c'.
         filter_sample X reference (TimeFromTime64 X (prev_cTxTime c))
           (TimeFromTime64 X (prev_sRxTime c)) (TimeFromTime64 X (TransmitTime ntpresp))
           (TimeFromTime64 X (prev_cRxTime c)) = (off, w) \<and>
         receive X deadline localAddr remoteAddr reference authKey ntpreq cTxTime c r =
           Return (Measured (Measurement off w True a
             (TimeFromTime64 X (prev_cTxTime c), TimeFromTime64 X (prev_sRxTime c),
              TimeFromTime64 X (TransmitTime ntpresp), TimeFromTime64 X (prev_cRxTime c)))) c')) \<and>
    (\<not> (InterleavedMode c \<and> OriginTime ntpresp = prev_cRxTime c) \<longrightarrow>
      OriginTime ntpresp \<noteq> TransmitTime ntpreq \<longrightarrow>
      receive X deadline localAddr remoteAddr reference authKey ntpreq cTxTime c r =
        continue_or_return deadline (Now_check r) errUnexpectedPacket c) \<and>
    (\<not> (InterleavedMode c \<and> OriginTime ntpresp = prev_cRxTime c) \<longrightarrow>
      OriginTime ntpresp = TransmitTime ntpreq \<longrightarrow>
      ValidateMetadata X ntpresp = None \<longrightarrow>
      ValidateTimestamps X cTxTime (TimeFromTime64 X (ReceiveTime ntpresp))
        (TimeFromTime64 X (ReceiveTime ntpresp)) (cRxTime_of X r) = None \<longrightarrow>
      (\<exists>off w c'.
         filter_sample X reference cTxTime (TimeFromTime64 X (ReceiveTime ntpresp))
           (TimeFromTime64 X (TransmitTime ntpresp)) (cRxTime_of X r) = (off, w) \<and>
         receive X deadline localAddr remoteAddr reference authKey ntpreq cTxTime c r =
           Return (Measured (Measurement off w False a
             (cTxTime, TimeFromTime64 X (ReceiveTime ntpresp),
              TimeFromTime64 X (TransmitTime ntpresp), cRxTime_of X r))) c'))"
  unfolding receive_well_received [OF assms(1)]
  using assms(2)
  by (auto simp: process_response_def Let_def split: prod.splits)

lemma compare_bytes_eq_0: "compare_bytes xs ys = 0 \<longleftrightarrow> xs = ys"
  by (induction xs ys rule: compare_bytes.induct) auto

lemma Addr_Compare_eq_0: "Addr_Compare a b = 0 \<longleftrightarrow> a = b"
  by (cases a; cases b) (auto simp: Addr_Compare_def BitLen_def Addr_bytes_def compare_bytes_eq_0)

lemma AddrFromSlice_None: "AddrFromSlice x = None \<longleftrightarrow> length x \<noteq> 4 \<and> length x \<noteq> 16"
  by (simp add: AddrFromSlice_def)

lemma validAddr_cases:
  "ia \<noteq> IA addr \<longrightarrow> validAddr ia raw addr = Inr False"
  "ia = IA addr \<and> AddrFromSlice raw = Some a \<and> AddrFromSlice (Host_IP addr) = Some b \<longrightarrow>
     validAddr ia raw addr =
       Inr ((if Is4In6 a then AddrFrom4_As4 a else a) = (if Is4In6 b then AddrFrom4_As4 b else b))"
  "ia = IA addr \<and> (AddrFromSlice raw = None \<or> AddrFromSlice (Host_IP addr) = None) \<longrightarrow>
     validAddr ia raw addr = Inl (PanicString ''unexpected IP address byte slice'')"
  by (auto simp: validAddr_def compareIPs_def Addr_Compare_eq_0 split: option.splits)

lemma receive_loop_continue_or_return:
  assumes "pass r = continue_or_return deadline now err c"
  shows "receive_loop pass (r # rs) =
    (case deadline of
       None \<Rightarrow> Some (Failed err, c)
     | Some d \<Rightarrow> if now < d then receive_loop pass rs else Some (Failed err, c))"
  using assms by (simp add: continue_or_return_def split: option.splits)

lemma MeasureClockOffsetSCION_loop:
  assumes "ListenUDP_err E = None"
    and "Deadline E = None \<or> SetDeadline_err E = None"
    and "datagram_of X E c localAddr remoteAddr
           (ntpreq_of X c (reference_of X remoteAddr) (Now0 E)) = Inr (buffer, key)"
    and "WriteToUDPAddrPort E = Write_complete"
  shows "MeasureClockOffsetSCION X E localAddr remoteAddr c =
    receive_loop
      (receive X (Deadline E) localAddr remoteAddr (reference_of X remoteAddr) key
         (ntpreq_of X c (reference_of X remoteAddr) (Now0 E))
         (case ReadTXTimestamp E of
            (t, txid, err) \<Rightarrow> if err \<noteq> None \<or> txid \<noteq> 0 then Now1 E else t) c)
      (datagrams E)"
  using assms
  by (auto simp: MeasureClockOffsetSCION_def Let_def split: option.splits)

text \<open>
  Claim C5, as amended. A datagram read without error that has flags, or whose source or
  destination is judged wrong, or whose origin matches neither the stored \<open>cRxTime\<close> in
  interleaved mode nor the request, ends the loop with its error when the context has no
  deadline or the clock read after it is not before the deadline, and otherwise leaves the
  loop to the datagrams that follow; a datagram whose authenticator does not verify leaves
  the loop to the datagrams that follow in any case. A source or destination is judged
  wrong when its ISD-AS number is not the expected one, or when the two host addresses
  have 4 or 16 bytes each and differ once an IPv4-mapped address is unmapped; under the
  expected ISD-AS number a host address of any other length makes the call panic, with or
  without a deadline. Once the request is written, the call returns what the loop returns.
\<close>
theorem anomalies_wait_for_deadline:
  assumes "Read_err r = None"
    and "pass = receive X deadline localAddr remoteAddr reference authKey ntpreq cTxTime c"
  shows "(Read_flags r \<noteq> 0 \<longrightarrow>
      receive_loop pass (r # rs) =
        (case deadline of
           None \<Rightarrow> Some (Failed errUnexpectedPacketFlags, c)
         | Some d \<Rightarrow> if Now_check r < d then receive_loop pass rs
                     else Some (Failed errUnexpectedPacketFlags, c))) \<and>
    (Read_flags r = 0 \<and> Decode_err r = None \<and> validType r \<and>
      validAddr (SrcIA (scionLayer r)) (RawSrcAddr (scionLayer r)) remoteAddr = Inr validSrc \<and>
      validAddr (DstIA (scionLayer r)) (RawDstAddr (scionLayer r)) localAddr = Inr validDst \<and>
      (\<not> validSrc \<or> \<not> validDst) \<longrightarrow>
      receive_loop pass (r # rs) =
        (case deadline of
           None \<Rightarrow> Some (Failed errUnexpectedPacket, c)
         | Some d \<Rightarrow> if Now_check r < d then receive_loop pass rs
                     else Some (Failed errUnexpectedPacket, c))) \<and>
    (ia \<noteq> IA addr \<longrightarrow> validAddr ia raw addr = Inr False) \<and>
    (ia = IA addr \<and> AddrFromSlice raw = Some a \<and> AddrFromSlice (Host_IP addr) = Some b \<longrightarrow>
      validAddr ia raw addr =
        Inr ((if Is4In6 a then AddrFrom4_As4 a else a) =
             (if Is4In6 b then AddrFrom4_As4 b else b))) \<and>
    (ia = IA addr \<and> (AddrFromSlice raw = None \<or> AddrFromSlice (Host_IP addr) = None) \<longrightarrow>
      validAddr ia raw addr = Inl (PanicString ''unexpected IP address byte slice'')) \<and>
    (AddrFromSlice raw = None \<longleftrightarrow> length raw \<noteq> 4 \<and> length raw \<noteq> 16) \<and>
    (Read_flags r = 0 \<and> Decode_err r = None \<and> validType r \<and>
      (validAddr (SrcIA (scionLayer r)) (RawSrcAddr (scionLayer r)) remoteAddr = Inl p \<or>
       validAddr (SrcIA (scionLayer r)) (RawSrcAddr (scionLayer r)) remoteAddr = Inr validSrc \<and>
       validAddr (DstIA (scionLayer r)) (RawDstAddr (scionLayer r)) localAddr = Inl p) \<longrightarrow>
      receive_loop pass (r # rs) = Some (Panicked p, c)) \<and>
    (well_received X localAddr remoteAddr authKey r authenticated \<and>
      DecodePacket r = Inr ntpresp \<and>
      \<not> (InterleavedMode c \<and> OriginTime ntpresp = prev_cRxTime c) \<and>
      OriginTime ntpresp \<noteq> TransmitTime ntpreq \<longrightarrow>
      receive_loop pass (r # rs) =
        (case deadline of
           None \<Rightarrow> Some (Failed errUnexpectedPacket, c)
         | Some d \<Rightarrow> if Now_check r < d then receive_loop pass rs
                     else Some (Failed errUnexpectedPacket, c))) \<and>
    (Read_flags r = 0 \<and> Decode_err r = None \<and> validType r \<and>
      validAddr (SrcIA (scionLayer r)) (RawSrcAddr (scionLayer r)) remoteAddr = Inr True \<and>
      validAddr (DstIA (scionLayer r)) (RawDstAddr (scionLayer r)) localAddr = Inr True \<and>
      authKey = Some key \<and> hasE2E r \<and>
      FindOption (e2eLayer r) OptTypeAuthenticator = Some authOptData \<and>
      length authOptData = PacketAuthOptDataLen \<and>
      spi_of authOptData = PacketAuthServerSPI X \<and> authOptData ! 4 = PacketAuthAlgorithm X \<and>
      ComputeAuthCMAC X \<lparr>Key = key, Header = authOptData, ScionLayer = scionLayer r,
        PldType = L4UDP, Pld = Received (udp_bytes r)\<rparr> = Inr mac \<and>
      drop PacketAuthMetadataLen authOptData \<noteq> mac \<longrightarrow>
      receive_loop pass (r # rs) = receive_loop pass rs) \<and>
    (ListenUDP_err E = None \<and> (Deadline E = None \<or> SetDeadline_err E = None) \<and>
      datagram_of X E c localAddr remoteAddr
        (ntpreq_of X c (reference_of X remoteAddr) (Now0 E)) = Inr (buffer, fetched) \<and>
      WriteToUDPAddrPort E = Write_complete \<longrightarrow>
      MeasureClockOffsetSCION X E localAddr remoteAddr c =
        receive_loop
          (receive X (Deadline E) localAddr remoteAddr (reference_of X remoteAddr) fetched
             (ntpreq_of X c (reference_of X remoteAddr) (Now0 E))
             (case ReadTXTimestamp E of
                (t, txid, err) \<Rightarrow> if err \<noteq> None \<or> txid \<noteq> 0 then Now1 E else t) c)
          (datagrams E))"
proof (intro conjI impI)
  assume "Read_flags r \<noteq> 0"
  then have "pass r = continue_or_return deadline (Now_check r) errUnexpectedPacketFlags c"
    using assms by (simp add: receive_def)
  then show "receive_loop pass (r # rs) =
        (case deadline of
           None \<Rightarrow> Some (Failed errUnexpectedPacketFlags, c)
         | Some d \<Rightarrow> if Now_check r < d then receive_loop pass rs
                     else Some (Failed errUnexpectedPacketFlags, c))"
    by (rule receive_loop_continue_or_return)
next
  assume "Read_flags r = 0 \<and> Decode_err r = None \<and> validType r \<and>
      validAddr (SrcIA (scionLayer r)) (RawSrcAddr (scionLayer r)) remoteAddr = Inr validSrc \<and>
      validAddr (DstIA (scionLayer r)) (RawDstAddr (scionLayer r)) localAddr = Inr validDst \<and>
      (\<not> validSrc \<or> \<not> validDst)"
  then have "pass r = continue_or_return deadline (Now_check r) errUnexpectedPacket c"
    using assms by (auto simp: receive_def)
  then show "receive_loop pass (r # rs) =
        (case deadline of
           None \<Rightarrow> Some (Failed errUnexpectedPacket, c)
         | Some d \<Rightarrow> if Now_check r < d then receive_loop pass rs
                     else Some (Failed errUnexpectedPacket, c))"
    by (rule receive_loop_continue_or_return)
next
  assume "ia \<noteq> IA addr"
  then show "validAddr ia raw addr = Inr False"
    using validAddr_cases(1) by blast
next
  assume "ia = IA addr \<and> AddrFromSlice raw = Some a \<and> AddrFromSlice (Host_IP addr) = Some b"
  then show "validAddr ia raw addr =
        Inr ((if Is4In6 a then AddrFrom4_As4 a else a) =
             (if Is4In6 b then AddrFrom4_As4 b else b))"
    using validAddr_cases(2) by blast
next
  assume "ia = IA addr \<and> (AddrFromSlice raw = None \<or> AddrFromSlice (Host_IP addr) = None)"
  then show "validAddr ia raw addr = Inl (PanicString ''unexpected IP address byte slice'')"
    using validAddr_cases(3) by blast
next
  show "AddrFromSlice raw = None \<longleftrightarrow> length raw \<noteq> 4 \<and> length raw \<noteq> 16"
    by (rule AddrFromSlice_None)
next
  assume "Read_flags r = 0 \<and> Decode_err r = None \<and> validType r \<and>
      (validAddr (SrcIA (scionLayer r)) (RawSrcAddr (scionLayer r)) remoteAddr = Inl p \<or>
       validAddr (SrcIA (scionLayer r)) (RawSrcAddr (scionLayer r)) remoteAddr = Inr validSrc \<and>
       validAddr (DstIA (scionLayer r)) (RawDstAddr (scionLayer r)) localAddr = Inl p)"
  then have "pass r = Return (Panicked p) c"
    using assms by (auto simp: receive_def)
  then show "receive_loop pass (r # rs) = Some (Panicked p, c)"
    by simp
next
  assume h: "well_received X localAddr remoteAddr authKey r authenticated \<and>
      DecodePacket r = Inr ntpresp \<and>
      \<not> (InterleavedMode c \<and> OriginTime ntpresp = prev_cRxTime c) \<and>
      OriginTime ntpresp \<noteq> TransmitTime ntpreq"
  then have "pass r =
      process_response X deadline reference ntpreq cTxTime c r (cRxTime_of X r) authenticated"
    using assms(2) by (simp add: receive_well_received)
  with h have "pass r = continue_or_return deadline (Now_check r) errUnexpectedPacket c"
    by (auto simp: process_response_def)
  then show "receive_loop pass (r # rs) =
        (case deadline of
           None \<Rightarrow> Some (Failed errUnexpectedPacket, c)
         | Some d \<Rightarrow> if Now_check r < d then receive_loop pass rs
                     else Some (Failed errUnexpectedPacket, c))"
    by (rule receive_loop_continue_or_return)
next
  assume "Read_flags r = 0 \<and> Decode_err r = None \<and> validType r \<and>
      validAddr (SrcIA (scionLayer r)) (RawSrcAddr (scionLayer r)) remoteAddr = Inr True \<and>
      validAddr (DstIA (scionLayer r)) (RawDstAddr (scionLayer r)) localAddr = Inr True \<and>
      authKey = Some key \<and> hasE2E r \<and>
      FindOption (e2eLayer r) OptTypeAuthenticator = Some authOptData \<and>
      length authOptData = PacketAuthOptDataLen \<and>
      spi_of authOptData = PacketAuthServerSPI X \<and> authOptData ! 4 = PacketAuthAlgorithm X \<and>
      ComputeAuthCMAC X \<lparr>Key = key, Header = authOptData, ScionLayer = scionLayer r,
        PldType = L4UDP, Pld = Received (udp_bytes r)\<rparr> = Inr mac \<and>
      drop PacketAuthMetadataLen authOptData \<noteq> mac"
  then have "pass r = Continue"
    using assms by (simp add: receive_def authenticate_def)
  then show "receive_loop pass (r # rs) = receive_loop pass rs"
    by simp
next
  assume "ListenUDP_err E = None \<and> (Deadline E = None \<or> SetDeadline_err E = None) \<and>
      datagram_of X E c localAddr remoteAddr
        (ntpreq_of X c (reference_of X remoteAddr) (Now0 E)) = Inr (buffer, fetched) \<and>
      WriteToUDPAddrPort E = Write_complete"
  then show "MeasureClockOffsetSCION X E localAddr remoteAddr c =
        receive_loop
          (receive X (Deadline E) localAddr remoteAddr (reference_of X remoteAddr) fetched
             (ntpreq_of X c (reference_of X remoteAddr) (Now0 E))
             (case ReadTXTimestamp E of
                (t, txid, err) \<Rightarrow> if err \<noteq> None \<or> txid \<noteq> 0 then Now1 E else t) c)
          (datagrams E)"
    by (intro MeasureClockOffsetSCION_loop) simp_all
qed

text \<open>
  Claim C6. For a datagram that reaches the validation of the timestamps, the validator
  is applied to \<open>(t0, t1, t1, t3)\<close>: the result of the pass is the one with a validator
  that is given its second argument as the third. When it returns an error the call
  returns that error, whatever the deadline and whatever datagrams follow; when it
  returns none, the offset is that of \<open>filter\<close> at \<open>(t0, t1, t2, t3)\<close>.
\<close>
theorem timestamps_validated_with_t1_twice:
  assumes "well_received X localAddr remoteAddr authKey r a"
    and "DecodePacket r = Inr ntpresp"
    and "InterleavedMode c \<and> OriginTime ntpresp = prev_cRxTime c \<or>
         OriginTime ntpresp = TransmitTime ntpreq"
    and "ValidateMetadata X ntpresp = None"
    and "interleaved = (InterleavedMode c \<and> OriginTime ntpresp = prev_cRxTime c)"
    and "t0 = (if interleaved then TimeFromTime64 X (prev_cTxTime c) else cTxTime)"
    and "t1 = (if interleaved then TimeFromTime64 X (prev_sRxTime c)
               else TimeFromTime64 X (ReceiveTime ntpresp))"
    and "t2 = TimeFromTime64 X (TransmitTime ntpresp)"
    and "t3 = (if interleaved then TimeFromTime64 X (prev_cRxTime c) else cRxTime_of X r)"
  shows "(ValidateTimestamps X t0 t1 t1 t3 = Some err \<longrightarrow>
      receive X deadline localAddr remoteAddr reference authKey ntpreq cTxTime c r =
        Return (Failed err) c \<and>
      receive_loop (receive X deadline localAddr remoteAddr reference authKey ntpreq cTxTime c)
        (r # rs) = Some (Failed err, c)) \<and>
    (ValidateTimestamps X t0 t1 t1 t3 = None \<longrightarrow>
      (\<exists>off w c'.
         filter_sample X reference t0 t1 t2 t3 = (off, w) \<and>
         receive X deadline localAddr remoteAddr reference authKey ntpreq cTxTime c r =
           Return (Measured (Measurement off w interleaved a (t0, t1, t2, t3))) c')) \<and>
    receive (X\<lparr>ValidateTimestamps := \<lambda>x0 x1 x2 x3. ValidateTimestamps X x0 x1 x1 x3\<rparr>)
        deadline localAddr remoteAddr reference authKey ntpreq cTxTime c r =
      receive X deadline localAddr remoteAddr reference authKey ntpreq cTxTime c r"
proof -
  let ?X = "X\<lparr>ValidateTimestamps := \<lambda>x0 x1 x2 x3. ValidateTimestamps X x0 x1 x1 x3\<rparr>"
  have a: "authenticate ?X authKey r = authenticate X authKey r"
    by (simp add: authenticate_def cong: option.case_cong if_cong sum.case_cong)
  have w: "well_received ?X localAddr remoteAddr authKey r a"
    using assms(1) by (simp add: well_received_def a)
  have t: "cRxTime_of ?X r = cRxTime_of X r"
    by (simp add: cRxTime_of_def cong: option.case_cong if_cong sum.case_cong)
  have p: "process_response ?X deadline reference ntpreq cTxTime c r (cRxTime_of X r) a =
      process_response X deadline reference ntpreq cTxTime c r (cRxTime_of X r) a"
    using assms(2-9)
    by (simp add: process_response_def Let_def cong: option.case_cong if_cong sum.case_cong)
  have r: "receive X deadline localAddr remoteAddr reference authKey ntpreq cTxTime c r =
      process_response X deadline reference ntpreq cTxTime c r (cRxTime_of X r) a"
    by (rule receive_well_received [OF assms(1)])
  have r': "receive ?X deadline localAddr remoteAddr reference authKey ntpreq cTxTime c r =
      process_response ?X deadline reference ntpreq cTxTime c r (cRxTime_of ?X r) a"
    by (rule receive_well_received [OF w])
  have 1: "ValidateTimestamps X t0 t1 t1 t3 = Some err \<Longrightarrow>
      process_response X deadline reference ntpreq cTxTime c r (cRxTime_of X r) a =
        Return (Failed err) c"
    using assms(2-9) by (auto simp: process_response_def Let_def)
  have 2: "ValidateTimestamps X t0 t1 t1 t3 = None \<Longrightarrow>
      \<exists>off w c'. filter_sample X reference t0 t1 t2 t3 = (off, w) \<and>
        process_response X deadline reference ntpreq cTxTime c r (cRxTime_of X r) a =
          Return (Measured (Measurement off w interleaved a (t0, t1, t2, t3))) c'"
    using assms(2-9) by (auto simp: process_response_def Let_def split: prod.splits)
  show ?thesis
    using 1 2 by (simp add: r r' t p)
qed


lemma authenticate_Drop:
  "authenticate X authKey r = Drop \<longleftrightarrow>
     (\<exists>key authOptData mac. authKey = Some key \<and> hasE2E r \<and>
        FindOption (e2eLayer r) OptTypeAuthenticator = Some authOptData \<and>
        length authOptData = PacketAuthOptDataLen \<and>
        spi_of authOptData = PacketAuthServerSPI X \<and> authOptData ! 4 = PacketAuthAlgorithm X \<and>
        ComputeAuthCMAC X \<lparr>Key = key, Header = authOptData, ScionLayer = scionLayer r,
          PldType = L4UDP, Pld = Received (udp_bytes r)\<rparr> = Inr mac \<and>
        drop PacketAuthMetadataLen authOptData \<noteq> mac)"
  by (auto simp: authenticate_def split: option.splits sum.splits if_splits)

lemma authenticate_without_CMAC:
  assumes "\<not> (\<exists>key authOptData. authKey = Some key \<and> hasE2E r \<and>
        FindOption (e2eLayer r) OptTypeAuthenticator = Some authOptData \<and>
        length authOptData = PacketAuthOptDataLen \<and>
        spi_of authOptData = PacketAuthServerSPI X \<and> authOptData ! 4 = PacketAuthAlgorithm X)"
  shows "authenticate (X\<lparr>ComputeAuthCMAC := f\<rparr>) authKey r = authenticate X authKey r"
  using assms
  by (auto simp: authenticate_def split: option.splits sum.splits if_splits)

lemma datagram_of_key:
  assumes "datagram_of X E c localAddr remoteAddr ntpreq = Inr (buffer, authKey)"
  shows "authKey = Some key \<longleftrightarrow> DRKeyFetcher c \<and> FetchHostHostKey E = Inr key"
  using assms
  by (auto simp: datagram_of_def serialize_def Let_def
      split: option.splits sum.splits if_splits)

lemma datagram_of_no_key:
  assumes "datagram_of X E c localAddr remoteAddr ntpreq = Inr (buffer, None)"
  shows "buffer = [Layer_SCION \<lparr>SrcIA = IA localAddr, RawSrcAddr = Host_IP localAddr,
                      DstIA = IA remoteAddr, RawDstAddr = Host_IP remoteAddr, NextHdr = L4UDP\<rparr>,
                   Layer_UDP (LocalPort E mod 65536) (Host_Port remoteAddr mod 65536),
                   Layer_Payload ntpreq]"
  using assms
  by (auto simp: datagram_of_def serialize_def Let_def
      split: option.splits sum.splits if_splits)

lemma process_response_flag:
  assumes "process_response X deadline reference ntpreq cTxTime c r cRxTime a =
      Return (Measured m) c'"
  shows "m_authenticated m = a"
  using assms
  by (auto simp: process_response_def continue_or_return_def Let_def
      split: option.splits sum.splits if_splits prod.splits)

text \<open>
  Claim C7, as amended. The key of a call is the one fetched, when a fetcher is set and
  the fetch succeeds; without a key the datagram written has no end-to-end extension.
  The CMAC is computed only with a key and for a response whose end-to-end extension
  carries an authenticator option of 28 bytes with the server's SPI and the algorithm
  byte: for any other response the verdict does not depend on the CMAC function. A
  response without end-to-end extension, or without authenticator option, or with one of
  28 bytes and another SPI or algorithm, passes with \<open>authenticated = false\<close>, and so does
  every response when there is no key; a measurement from such a response has the flag
  false. A response is dropped exactly when the CMAC of its matching authenticator
  differs from the one computed. With a key, an authenticator option whose data is not
  28 bytes long makes the call panic.
\<close>
theorem authenticator_checked:
  "(datagram_of X E c localAddr remoteAddr ntpreq = Inr (buffer, authKey) \<longrightarrow>
      (authKey = Some key \<longleftrightarrow> DRKeyFetcher c \<and> FetchHostHostKey E = Inr key) \<and>
      (authKey = None \<longrightarrow>
         buffer = [Layer_SCION \<lparr>SrcIA = IA localAddr, RawSrcAddr = Host_IP localAddr,
                      DstIA = IA remoteAddr, RawDstAddr = Host_IP remoteAddr, NextHdr = L4UDP\<rparr>,
                   Layer_UDP (LocalPort E mod 65536) (Host_Port remoteAddr mod 65536),
                   Layer_Payload ntpreq])) \<and>
   (\<not> (\<exists>k authOptData. authKey = Some k \<and> hasE2E r \<and>
        FindOption (e2eLayer r) OptTypeAuthenticator = Some authOptData \<and>
        length authOptData = PacketAuthOptDataLen \<and>
        spi_of authOptData = PacketAuthServerSPI X \<and> authOptData ! 4 = PacketAuthAlgorithm X) \<longrightarrow>
      authenticate (X\<lparr>ComputeAuthCMAC := f\<rparr>) authKey r = authenticate X authKey r) \<and>
   (authKey = None \<or> \<not> hasE2E r \<or> FindOption (e2eLayer r) OptTypeAuthenticator = None \<or>
      (\<exists>authOptData. FindOption (e2eLayer r) OptTypeAuthenticator = Some authOptData \<and>
         length authOptData = PacketAuthOptDataLen \<and>
         \<not> (spi_of authOptData = PacketAuthServerSPI X \<and>
            authOptData ! 4 = PacketAuthAlgorithm X)) \<longrightarrow>
      authenticate X authKey r = Pass False) \<and>
   (well_received X localAddr remoteAddr authKey r False \<longrightarrow>
      receive X deadline localAddr remoteAddr reference authKey ntpreq cTxTime c r =
        process_response X deadline reference ntpreq cTxTime c r (cRxTime_of X r) False \<and>
      (receive X deadline localAddr remoteAddr reference authKey ntpreq cTxTime c r =
         Return (Measured m) c' \<longrightarrow> m_authenticated m = False)) \<and>
   (authenticate X authKey r = Drop \<longleftrightarrow>
      (\<exists>k authOptData mac. authKey = Some k \<and> hasE2E r \<and>
        FindOption (e2eLayer r) OptTypeAuthenticator = Some authOptData \<and>
        length authOptData = PacketAuthOptDataLen \<and>
        spi_of authOptData = PacketAuthServerSPI X \<and> authOptData ! 4 = PacketAuthAlgorithm X \<and>
        ComputeAuthCMAC X \<lparr>Key = k, Header = authOptData, ScionLayer = scionLayer r,
          PldType = L4UDP, Pld = Received (udp_bytes r)\<rparr> = Inr mac \<and>
        drop PacketAuthMetadataLen authOptData \<noteq> mac)) \<and>
   (authKey = Some k' \<and> hasE2E r \<and>
      FindOption (e2eLayer r) OptTypeAuthenticator = Some authOptData' \<and>
      length authOptData' \<noteq> PacketAuthOptDataLen \<longrightarrow>
      authenticate X authKey r = Abort (PanicString ''unexpected authenticator option data''))"
proof (intro conjI impI)
  assume "datagram_of X E c localAddr remoteAddr ntpreq = Inr (buffer, authKey)"
  then show "authKey = Some key \<longleftrightarrow> DRKeyFetcher c \<and> FetchHostHostKey E = Inr key"
    by (rule datagram_of_key)
next
  assume "datagram_of X E c localAddr remoteAddr ntpreq = Inr (buffer, authKey)"
    and "authKey = None"
  then show "buffer = [Layer_SCION \<lparr>SrcIA = IA localAddr, RawSrcAddr = Host_IP localAddr,
                      DstIA = IA remoteAddr, RawDstAddr = Host_IP remoteAddr, NextHdr = L4UDP\<rparr>,
                   Layer_UDP (LocalPort E mod 65536) (Host_Port remoteAddr mod 65536),
                   Layer_Payload ntpreq]"
    by (simp add: datagram_of_no_key)
next
  assume "\<not> (\<exists>k authOptData. authKey = Some k \<and> hasE2E r \<and>
        FindOption (e2eLayer r) OptTypeAuthenticator = Some authOptData \<and>
        length authOptData = PacketAuthOptDataLen \<and>
        spi_of authOptData = PacketAuthServerSPI X \<and> authOptData ! 4 = PacketAuthAlgorithm X)"
  then show "authenticate (X\<lparr>ComputeAuthCMAC := f\<rparr>) authKey r = authenticate X authKey r"
    by (rule authenticate_without_CMAC)
next
  assume "authKey = None \<or> \<not> hasE2E r \<or> FindOption (e2eLayer r) OptTypeAuthenticator = None \<or>
      (\<exists>authOptData. FindOption (e2eLayer r) OptTypeAuthenticator = Some authOptData \<and>
         length authOptData = PacketAuthOptDataLen \<and>
         \<not> (spi_of authOptData = PacketAuthServerSPI X \<and>
            authOptData ! 4 = PacketAuthAlgorithm X))"
  then show "authenticate X authKey r = Pass False"
    by (auto simp: authenticate_def split: option.splits)
next
  assume w: "well_received X localAddr remoteAddr authKey r False"
  then show "receive X deadline localAddr remoteAddr reference authKey ntpreq cTxTime c r =
        process_response X deadline reference ntpreq cTxTime c r (cRxTime_of X r) False"
    by (rule receive_well_received)
next
  assume w: "well_received X localAddr remoteAddr authKey r False"
    and "receive X deadline localAddr remoteAddr reference authKey ntpreq cTxTime c r =
         Return (Measured m) c'"
  then have "process_response X deadline reference ntpreq cTxTime c r (cRxTime_of X r) False =
      Return (Measured m) c'"
    by (simp add: receive_well_received)
  then show "m_authenticated m = False"
    by (rule process_response_flag)
next
  show "authenticate X authKey r = Drop \<longleftrightarrow>
      (\<exists>k authOptData mac. authKey = Some k \<and> hasE2E r \<and>
        FindOption (e2eLayer r) OptTypeAuthenticator = Some authOptData \<and>
        length authOptData = PacketAuthOptDataLen \<and>
        spi_of authOptData = PacketAuthServerSPI X \<and> authOptData ! 4 = PacketAuthAlgorithm X \<and>
        ComputeAuthCMAC X \<lparr>Key = k, Header = authOptData, ScionLayer = scionLayer r,
          PldType = L4UDP, Pld = Received (udp_bytes r)\<rparr> = Inr mac \<and>
        drop PacketAuthMetadataLen authOptData \<noteq> mac)"
    by (rule authenticate_Drop)
next
  assume "authKey = Some k' \<and> hasE2E r \<and>
      FindOption (e2eLayer r) OptTypeAuthenticator = Some authOptData' \<and>
      length authOptData' \<noteq> PacketAuthOptDataLen"
  then show "authenticate X authKey r = Abort (PanicString ''unexpected authenticator option data'')"
    by (simp add: authenticate_def)
qed


text \<open>
  A client whose last exchange with the remote host was sent at time 1: a call at time 10
  sends the stored timestamps, a call two seconds later sends its own transmit time.
\<close>
theorem request_timestamps_witness:
  "(InterleavedMode (interleaved_client False) \<and>
    reference_of example_externals example_remote = prev_reference (interleaved_client False) \<and>
    10 - TimeFromTime64 example_externals (prev_cTxTime (interleaved_client False)) \<le> Second) \<and>
   OriginTime (ntpreq_of example_externals (interleaved_client False)
     (reference_of example_externals example_remote) 10) = 2 \<and>
   ReceiveTime (ntpreq_of example_externals (interleaved_client False)
     (reference_of example_externals example_remote) 10) = 4 \<and>
   TransmitTime (ntpreq_of example_externals (interleaved_client False)
     (reference_of example_externals example_remote) 10) = 1 \<and>
   \<not> (InterleavedMode (interleaved_client False) \<and>
    reference_of example_externals example_remote = prev_reference (interleaved_client False) \<and>
    2000000000 - TimeFromTime64 example_externals (prev_cTxTime (interleaved_client False))
      \<le> Second) \<and>
   OriginTime (ntpreq_of example_externals (interleaved_client False)
     (reference_of example_externals example_remote) 2000000000) = 0 \<and>
   ReceiveTime (ntpreq_of example_externals (interleaved_client False)
     (reference_of example_externals example_remote) 2000000000) = 0 \<and>
   TransmitTime (ntpreq_of example_externals (interleaved_client False)
     (reference_of example_externals example_remote) 2000000000) = 2000000000"
proof -
  let ?X = example_externals
  let ?c = "interleaved_client False"
  let ?ref = "reference_of ?X example_remote"
  have h1: "InterleavedMode ?c \<and> ?ref = prev_reference ?c \<and>
      10 - TimeFromTime64 ?X (prev_cTxTime ?c) \<le> Second"
    by code_simp
  have h2: "\<not> (InterleavedMode ?c \<and> ?ref = prev_reference ?c \<and>
      2000000000 - TimeFromTime64 ?X (prev_cTxTime ?c) \<le> Second)"
    by code_simp
  have p: "prev_sRxTime ?c = 2" "prev_cRxTime ?c = 4" "prev_cTxTime ?c = 1"
    by (simp_all add: interleaved_client_def)
  have t: "Time64FromTime ?X 2000000000 = 2000000000"
    by (simp add: example_externals_def time64_of_def)
  note T1 = request_timestamps [where X = ?X and c = ?c and reference = ?ref and txTime = 10,
      THEN conjunct1, rule_format, OF h1]
  note T2 = request_timestamps [where X = ?X and c = ?c and reference = ?ref
      and txTime = 2000000000, THEN conjunct2, THEN conjunct1, rule_format, OF h2]
  show ?thesis
    using h1 h2 T1 T2 unfolding p t by (intro conjI) simp_all
qed


text \<open>
  After an exchange sent at 1, received by the server at 2 and answered to the client at
  4, a response with origin 4 is interleaved; one with origin 99 is dropped before the
  deadline.
\<close>
theorem response_timestamps_witness:
  "well_received example_externals example_local example_remote None (response 4 20 30 []) False \<and>
   DecodePacket (response 4 20 30 []) =
     Inr (Packet0\<lparr>Version := 4, Mode := 4, OriginTime := 4, ReceiveTime := 20,
            TransmitTime := 30\<rparr>) \<and>
   (\<exists>off w c'.
      receive example_externals (Some 100) example_local example_remote
        ''1-ff00:0:110,10.0.0.2:123'' None Packet0 11 (interleaved_client False)
        (response 4 20 30 []) =
      Return (Measured (Measurement off w True False (1, 2, 30, 4))) c') \<and>
   well_received example_externals example_local example_remote None (response 99 20 30 []) False \<and>
   receive example_externals (Some 100) example_local example_remote
        ''1-ff00:0:110,10.0.0.2:123'' None Packet0 11 (interleaved_client False)
        (response 99 20 30 []) = Continue"
proof -
  let ?X = example_externals
  let ?c = "interleaved_client False"
  let ?p = "Packet0\<lparr>Version := 4, Mode := 4, OriginTime := 4, ReceiveTime := 20,
            TransmitTime := 30\<rparr>"
  let ?q = "Packet0\<lparr>Version := 4, Mode := 4, OriginTime := 99, ReceiveTime := 20,
            TransmitTime := 30\<rparr>"
  have h1: "well_received ?X example_local example_remote None (response 4 20 30 []) False"
    by code_simp
  have h2: "DecodePacket (response 4 20 30 []) = Inr ?p"
    by (simp add: response_def)
  have h3: "InterleavedMode ?c \<and> OriginTime ?p = prev_cRxTime ?c"
    by (simp add: interleaved_client_def)
  have h4: "ValidateMetadata ?X ?p = None"
    by (simp add: example_externals_def accept_metadata_def)
  have e: "TimeFromTime64 ?X (prev_cTxTime ?c) = 1" "TimeFromTime64 ?X (prev_sRxTime ?c) = 2"
    "TimeFromTime64 ?X (prev_cRxTime ?c) = 4" "TimeFromTime64 ?X (TransmitTime ?p) = 30"
    by (simp_all add: example_externals_def interleaved_client_def time_of_def)
  have h5: "ValidateTimestamps ?X 1 2 2 4 = None"
    by (simp add: example_externals_def ordered_stamps_def)
  note T = response_timestamps [OF h1 h2, where c = ?c and deadline = "Some 100"
      and reference = "''1-ff00:0:110,10.0.0.2:123''" and ntpreq = Packet0 and cTxTime = 11]
  from T h3 h4 h5 have a: "\<exists>off w c'.
      receive ?X (Some 100) example_local example_remote
        ''1-ff00:0:110,10.0.0.2:123'' None Packet0 11 ?c (response 4 20 30 []) =
      Return (Measured (Measurement off w True False (1, 2, 30, 4))) c'"
    unfolding e by blast
  have k1: "well_received ?X example_local example_remote None (response 99 20 30 []) False"
    by code_simp
  have k2: "DecodePacket (response 99 20 30 []) = Inr ?q"
    by (simp add: response_def)
  have k3: "\<not> (InterleavedMode ?c \<and> OriginTime ?q = prev_cRxTime ?c)"
    by (simp add: interleaved_client_def)
  have k4: "OriginTime ?q \<noteq> TransmitTime Packet0"
    by (simp add: Packet0_def)
  have k5: "continue_or_return (Some 100) (Now_check (response 99 20 30 [])) errUnexpectedPacket ?c
      = Continue"
    by (simp add: continue_or_return_def response_def)
  note U = response_timestamps [OF k1 k2, where c = ?c and deadline = "Some 100"
      and reference = "''1-ff00:0:110,10.0.0.2:123''" and ntpreq = Packet0 and cTxTime = 11]
  from U k3 k4 have b: "receive ?X (Some 100) example_local example_remote
        ''1-ff00:0:110,10.0.0.2:123'' None Packet0 11 ?c (response 99 20 30 []) = Continue"
    unfolding k5 [symmetric] by blast
  from h1 h2 a k1 b show ?thesis
    by (intro conjI)
qed


text \<open>
  With a deadline of 100, a datagram with flags read at 42 and one read at 100: the flags
  error is returned by the second; with no deadline, by the first. The same with a source
  host 10.0.0.9, with a source ISD-AS 5, and with an origin 5 that is neither the stored
  \<open>cRxTime\<close> 4 nor the request's 0. A source host of eight bytes: a panic. A MAC of
  sixteen bytes 8 where the MAC is sixteen bytes 7: the next datagram decides.
\<close>
theorem anomalies_wait_for_deadline_witness:
  "receive_loop
     (receive example_externals (Some 100) example_local example_remote
        ''1-ff00:0:110,10.0.0.2:123'' None Packet0 11 (interleaved_client False))
     [(response 4 20 30 [])\<lparr>Read_flags := 1\<rparr>,
      (response 4 20 30 [])\<lparr>Read_flags := 1, Now_check := 100\<rparr>,
      response 0 20 30 []] =
     Some (Failed errUnexpectedPacketFlags, interleaved_client False) \<and>
   receive_loop
     (receive example_externals None example_local example_remote
        ''1-ff00:0:110,10.0.0.2:123'' None Packet0 11 (interleaved_client False))
     [(response 4 20 30 [])\<lparr>Read_flags := 1\<rparr>, response 0 20 30 []] =
     Some (Failed errUnexpectedPacketFlags, interleaved_client False) \<and>
   validAddr 1 [10, 0, 0, 9] example_remote = Inr False \<and>
   receive_loop
     (receive example_externals (Some 100) example_local example_remote
        ''1-ff00:0:110,10.0.0.2:123'' None Packet0 11 (interleaved_client False))
     [(response 0 20 30 [])\<lparr>scionLayer :=
         (scionLayer (response 0 20 30 []))\<lparr>RawSrcAddr := [10, 0, 0, 9]\<rparr>\<rparr>,
      (response 0 20 30 [])\<lparr>scionLayer :=
         (scionLayer (response 0 20 30 []))\<lparr>RawSrcAddr := [10, 0, 0, 9]\<rparr>, Now_check := 100\<rparr>,
      response 0 20 30 []] =
     Some (Failed errUnexpectedPacket, interleaved_client False) \<and>
   validAddr 5 [10, 0, 0, 2] example_remote = Inr False \<and>
   receive_loop
     (receive example_externals (Some 100) example_local example_remote
        ''1-ff00:0:110,10.0.0.2:123'' None Packet0 11 (interleaved_client False))
     [(response 0 20 30 [])\<lparr>scionLayer := (scionLayer (response 0 20 30 []))\<lparr>SrcIA := 5\<rparr>\<rparr>,
      (response 0 20 30 [])\<lparr>scionLayer := (scionLayer (response 0 20 30 []))\<lparr>SrcIA := 5\<rparr>,
        Now_check := 100\<rparr>,
      response 0 20 30 []] =
     Some (Failed errUnexpectedPacket, interleaved_client False) \<and>
   validAddr 1 [10, 0, 0, 2, 0, 0, 0, 0] example_remote =
     Inl (PanicString ''unexpected IP address byte slice'') \<and>
   receive_loop
     (receive example_externals (Some 100) example_local example_remote
        ''1-ff00:0:110,10.0.0.2:123'' None Packet0 11 (interleaved_client False))
     [(response 0 20 30 [])\<lparr>scionLayer :=
         (scionLayer (response 0 20 30 []))\<lparr>RawSrcAddr := [10, 0, 0, 2, 0, 0, 0, 0]\<rparr>\<rparr>,
      response 0 20 30 []] =
     Some (Panicked (PanicString ''unexpected IP address byte slice''),
           interleaved_client False) \<and>
   receive_loop
     (receive example_externals (Some 100) example_local example_remote
        ''1-ff00:0:110,10.0.0.2:123'' None Packet0 11 (interleaved_client False))
     [response 5 20 30 [], (response 5 20 30 [])\<lparr>Now_check := 100\<rparr>, response 0 20 30 []] =
     Some (Failed errUnexpectedPacket, interleaved_client False) \<and>
   receive_loop
     (receive example_externals (Some 100) example_local example_remote
        ''1-ff00:0:110,10.0.0.2:123'' (Some [1, 2, 3]) Packet0 11 (interleaved_client True))
     [response 0 20 30
        [(OptTypeAuthenticator, [0, 0, 0, 2, 0] @ replicate 7 0 @ replicate 16 8)],
      (response 4 20 30 [])\<lparr>Read_flags := 1, Now_check := 100\<rparr>] =
     Some (Failed errUnexpectedPacketFlags, interleaved_client True) \<and>
   MeasureClockOffsetSCION example_externals
     (example_environment (Some 100) (Inl (errOther ''no key''))
        [(response 4 20 30 [])\<lparr>Read_flags := 1\<rparr>,
         (response 4 20 30 [])\<lparr>Read_flags := 1, Now_check := 100\<rparr>,
         response 0 20 30 []])
     example_local example_remote (interleaved_client False) =
     Some (Failed errUnexpectedPacketFlags, interleaved_client False)"
proof -
  let ?X = example_externals
  let ?c = "interleaved_client False"
  let ?ref = "''1-ff00:0:110,10.0.0.2:123''"
  let ?g = "response 0 20 30 []"
  let ?P = "receive ?X (Some 100) example_local example_remote ?ref None Packet0 11 ?c"
  let ?N = "receive ?X None example_local example_remote ?ref None Packet0 11 ?c"
  note T = anomalies_wait_for_deadline [where X = ?X and localAddr = example_local
      and remoteAddr = example_remote]
  note L = T [OF _ refl, where reference = ?ref and authKey = None and ntpreq = Packet0
      and cTxTime = 11 and c = ?c]
  have two: "l (r # rs) = l rs \<Longrightarrow> l rs = v \<Longrightarrow> l (r # rs) = v"
    for l :: "datagram list \<Rightarrow> (outcome \<times> SCIONClient) option" and r rs v
    by simp
  let ?f = "(response 4 20 30 [])\<lparr>Read_flags := 1\<rparr>"
  let ?f' = "(response 4 20 30 [])\<lparr>Read_flags := 1, Now_check := 100\<rparr>"
  have f: "Read_err ?f = None" "Read_flags ?f \<noteq> 0" "Now_check ?f = 42"
    "Read_err ?f' = None" "Read_flags ?f' \<noteq> 0" "Now_check ?f' = 100"
    by (simp_all add: response_def)
  from L [OF f(1), where deadline = "Some 100" and rs = "[?f', ?g]"] f(2)
  have "receive_loop ?P [?f, ?f', ?g] =
      (if Now_check ?f < 100 then receive_loop ?P [?f', ?g]
       else Some (Failed errUnexpectedPacketFlags, ?c))"
    by (simp del: receive_loop.simps)
  then have f1: "receive_loop ?P [?f, ?f', ?g] = receive_loop ?P [?f', ?g]"
    unfolding f(3) by (simp del: receive_loop.simps)
  from L [OF f(4), where deadline = "Some 100" and rs = "[?g]"] f(5)
  have "receive_loop ?P [?f', ?g] =
      (if Now_check ?f' < 100 then receive_loop ?P [?g]
       else Some (Failed errUnexpectedPacketFlags, ?c))"
    by (simp del: receive_loop.simps)
  then have f2: "receive_loop ?P [?f', ?g] = Some (Failed errUnexpectedPacketFlags, ?c)"
    unfolding f(6) by (simp del: receive_loop.simps)
  note w1 = two [OF f1 f2]
  from L [OF f(1), where deadline = None and rs = "[?g]"] f(2)
  have w2: "receive_loop ?N [?f, ?g] = Some (Failed errUnexpectedPacketFlags, ?c)"
    by (simp del: receive_loop.simps)
  let ?w = "(response 0 20 30 [])\<lparr>scionLayer :=
         (scionLayer (response 0 20 30 []))\<lparr>RawSrcAddr := [10, 0, 0, 9]\<rparr>\<rparr>"
  let ?w' = "(response 0 20 30 [])\<lparr>scionLayer :=
         (scionLayer (response 0 20 30 []))\<lparr>RawSrcAddr := [10, 0, 0, 9]\<rparr>, Now_check := 100\<rparr>"
  have a: "1 = IA example_remote \<and> AddrFromSlice [10, 0, 0, 9] = Some (Addr4 [10, 0, 0, 9]) \<and>
      AddrFromSlice (Host_IP example_remote) = Some (Addr4 [10, 0, 0, 2])"
    by code_simp
  from L [OF f(1), where ia = 1 and raw = "[10, 0, 0, 9]" and addr = example_remote
      and a = "Addr4 [10, 0, 0, 9]" and b = "Addr4 [10, 0, 0, 2]"] a
  have "validAddr 1 [10, 0, 0, 9] example_remote =
      Inr ((if Is4In6 (Addr4 [10, 0, 0, 9]) then AddrFrom4_As4 (Addr4 [10, 0, 0, 9])
            else Addr4 [10, 0, 0, 9]) =
           (if Is4In6 (Addr4 [10, 0, 0, 2]) then AddrFrom4_As4 (Addr4 [10, 0, 0, 2])
            else Addr4 [10, 0, 0, 2]))"
    by blast
  then have w3: "validAddr 1 [10, 0, 0, 9] example_remote = Inr False"
    by (simp add: Is4In6_def)
  have w: "Read_err ?w = None" "Now_check ?w = 42" "Read_err ?w' = None" "Now_check ?w' = 100"
    "SrcIA (scionLayer ?w) = 1" "RawSrcAddr (scionLayer ?w) = [10, 0, 0, 9]"
    "SrcIA (scionLayer ?w') = 1" "RawSrcAddr (scionLayer ?w') = [10, 0, 0, 9]"
    by (simp_all add: response_def)
  have wg: "Read_flags ?w = 0 \<and> Decode_err ?w = None \<and> validType ?w \<and>
      validAddr (SrcIA (scionLayer ?w)) (RawSrcAddr (scionLayer ?w)) example_remote = Inr False \<and>
      validAddr (DstIA (scionLayer ?w)) (RawDstAddr (scionLayer ?w)) example_local = Inr True \<and>
      (\<not> False \<or> \<not> True)"
    unfolding w(5,6) w3 by code_simp
  have wg': "Read_flags ?w' = 0 \<and> Decode_err ?w' = None \<and> validType ?w' \<and>
      validAddr (SrcIA (scionLayer ?w')) (RawSrcAddr (scionLayer ?w')) example_remote = Inr False \<and>
      validAddr (DstIA (scionLayer ?w')) (RawDstAddr (scionLayer ?w')) example_local = Inr True \<and>
      (\<not> False \<or> \<not> True)"
    unfolding w(7,8) w3 by code_simp
  from L [OF w(1), where deadline = "Some 100" and rs = "[?w', ?g]" and validSrc = False
      and validDst = True] wg
  have "receive_loop ?P [?w, ?w', ?g] =
      (if Now_check ?w < 100 then receive_loop ?P [?w', ?g]
       else Some (Failed errUnexpectedPacket, ?c))"
    by (simp del: receive_loop.simps)
  then have w4a: "receive_loop ?P [?w, ?w', ?g] = receive_loop ?P [?w', ?g]"
    unfolding w(2) by (simp del: receive_loop.simps)
  from L [OF w(3), where deadline = "Some 100" and rs = "[?g]" and validSrc = False
      and validDst = True] wg'
  have "receive_loop ?P [?w', ?g] =
      (if Now_check ?w' < 100 then receive_loop ?P [?g]
       else Some (Failed errUnexpectedPacket, ?c))"
    by (simp del: receive_loop.simps)
  then have w4b: "receive_loop ?P [?w', ?g] = Some (Failed errUnexpectedPacket, ?c)"
    unfolding w(4) by (simp del: receive_loop.simps)
  note w4 = two [OF w4a w4b]
  let ?s = "(response 0 20 30 [])\<lparr>scionLayer := (scionLayer (response 0 20 30 []))\<lparr>SrcIA := 5\<rparr>\<rparr>"
  let ?s' = "(response 0 20 30 [])\<lparr>scionLayer := (scionLayer (response 0 20 30 []))\<lparr>SrcIA := 5\<rparr>,
        Now_check := 100\<rparr>"
  have "5 \<noteq> IA example_remote"
    by code_simp
  with L [OF f(1), where ia = 5 and raw = "[10, 0, 0, 2]" and addr = example_remote]
  have w5: "validAddr 5 [10, 0, 0, 2] example_remote = Inr False"
    by blast
  have s: "Read_err ?s = None" "Now_check ?s = 42" "Read_err ?s' = None" "Now_check ?s' = 100"
    "SrcIA (scionLayer ?s) = 5" "RawSrcAddr (scionLayer ?s) = [10, 0, 0, 2]"
    "SrcIA (scionLayer ?s') = 5" "RawSrcAddr (scionLayer ?s') = [10, 0, 0, 2]"
    by (simp_all add: response_def)
  have sg: "Read_flags ?s = 0 \<and> Decode_err ?s = None \<and> validType ?s \<and>
      validAddr (SrcIA (scionLayer ?s)) (RawSrcAddr (scionLayer ?s)) example_remote = Inr False \<and>
      validAddr (DstIA (scionLayer ?s)) (RawDstAddr (scionLayer ?s)) example_local = Inr True \<and>
      (\<not> False \<or> \<not> True)"
    unfolding s(5,6) w5 by code_simp
  have sg': "Read_flags ?s' = 0 \<and> Decode_err ?s' = None \<and> validType ?s' \<and>
      validAddr (SrcIA (scionLayer ?s')) (RawSrcAddr (scionLayer ?s')) example_remote = Inr False \<and>
      validAddr (DstIA (scionLayer ?s')) (RawDstAddr (scionLayer ?s')) example_local = Inr True \<and>
      (\<not> False \<or> \<not> True)"
    unfolding s(7,8) w5 by code_simp
  from L [OF s(1), where deadline = "Some 100" and rs = "[?s', ?g]" and validSrc = False
      and validDst = True] sg
  have "receive_loop ?P [?s, ?s', ?g] =
      (if Now_check ?s < 100 then receive_loop ?P [?s', ?g]
       else Some (Failed errUnexpectedPacket, ?c))"
    by (simp del: receive_loop.simps)
  then have w6a: "receive_loop ?P [?s, ?s', ?g] = receive_loop ?P [?s', ?g]"
    unfolding s(2) by (simp del: receive_loop.simps)
  from L [OF s(3), where deadline = "Some 100" and rs = "[?g]" and validSrc = False
      and validDst = True] sg'
  have "receive_loop ?P [?s', ?g] =
      (if Now_check ?s' < 100 then receive_loop ?P [?g]
       else Some (Failed errUnexpectedPacket, ?c))"
    by (simp del: receive_loop.simps)
  then have w6b: "receive_loop ?P [?s', ?g] = Some (Failed errUnexpectedPacket, ?c)"
    unfolding s(4) by (simp del: receive_loop.simps)
  note w6 = two [OF w6a w6b]
  let ?o = "(response 0 20 30 [])\<lparr>scionLayer :=
         (scionLayer (response 0 20 30 []))\<lparr>RawSrcAddr := [10, 0, 0, 2, 0, 0, 0, 0]\<rparr>\<rparr>"
  let ?p = "PanicString ''unexpected IP address byte slice''"
  have o8: "length ([10, 0, 0, 2, 0, 0, 0, 0] :: bytes) \<noteq> 4 \<and>
      length ([10, 0, 0, 2, 0, 0, 0, 0] :: bytes) \<noteq> 16 \<and> 1 = IA example_remote"
    by code_simp
  note V = L [OF f(1), where ia = 1 and raw = "[10, 0, 0, 2, 0, 0, 0, 0]"
      and addr = example_remote]
  from V [THEN conjunct2, THEN conjunct2, THEN conjunct2, THEN conjunct2, THEN conjunct2, THEN conjunct1] o8
  have o8': "1 = IA example_remote \<and>
      (AddrFromSlice [10, 0, 0, 2, 0, 0, 0, 0] = None \<or>
       AddrFromSlice (Host_IP example_remote) = None)"
    by simp
  note w7 = V [THEN conjunct2, THEN conjunct2, THEN conjunct2, THEN conjunct2, THEN conjunct1, THEN mp, OF o8']
  have o: "Read_err ?o = None"
    "SrcIA (scionLayer ?o) = 1" "RawSrcAddr (scionLayer ?o) = [10, 0, 0, 2, 0, 0, 0, 0]"
    by (simp_all add: response_def)
  have og: "Read_flags ?o = 0 \<and> Decode_err ?o = None \<and> validType ?o \<and>
      (validAddr (SrcIA (scionLayer ?o)) (RawSrcAddr (scionLayer ?o)) example_remote = Inl ?p \<or>
       validAddr (SrcIA (scionLayer ?o)) (RawSrcAddr (scionLayer ?o)) example_remote = Inr True \<and>
       validAddr (DstIA (scionLayer ?o)) (RawDstAddr (scionLayer ?o)) example_local = Inl ?p)"
    unfolding o(2,3) w7 by code_simp
  note w8 = L [OF o(1), where deadline = "Some 100" and rs = "[?g]" and p = ?p
      and validSrc = True, THEN conjunct2, THEN conjunct2, THEN conjunct2, THEN conjunct2, THEN conjunct2, THEN conjunct2, THEN conjunct1, THEN mp, OF og]
  let ?m = "response 5 20 30 []"
  let ?m' = "(response 5 20 30 [])\<lparr>Now_check := 100\<rparr>"
  let ?resp = "Packet0\<lparr>Version := 4, Mode := 4, OriginTime := 5, ReceiveTime := 20,
      TransmitTime := 30\<rparr>"
  have m: "Read_err ?m = None" "Now_check ?m = 42" "Read_err ?m' = None" "Now_check ?m' = 100"
    by (simp_all add: response_def)
  have mw: "well_received ?X example_local example_remote None ?m False"
    "well_received ?X example_local example_remote None ?m' False"
    by code_simp+
  have mo: "DecodePacket ?m = Inr ?resp" "DecodePacket ?m' = Inr ?resp"
    "\<not> (InterleavedMode ?c \<and> OriginTime ?resp = prev_cRxTime ?c)"
    "OriginTime ?resp \<noteq> TransmitTime Packet0"
    by (simp_all add: response_def interleaved_client_def Packet0_def)
  from mw(1) mo(1,3,4)
  have mg: "well_received ?X example_local example_remote None ?m False \<and>
      DecodePacket ?m = Inr ?resp \<and>
      \<not> (InterleavedMode ?c \<and> OriginTime ?resp = prev_cRxTime ?c) \<and>
      OriginTime ?resp \<noteq> TransmitTime Packet0"
    by (intro conjI)
  from mw(2) mo(2,3,4)
  have mg': "well_received ?X example_local example_remote None ?m' False \<and>
      DecodePacket ?m' = Inr ?resp \<and>
      \<not> (InterleavedMode ?c \<and> OriginTime ?resp = prev_cRxTime ?c) \<and>
      OriginTime ?resp \<noteq> TransmitTime Packet0"
    by (intro conjI)
  from L [OF m(1), where deadline = "Some 100" and rs = "[?m', ?g]" and authenticated = False
      and ntpresp = ?resp] mg
  have "receive_loop ?P [?m, ?m', ?g] =
      (if Now_check ?m < 100 then receive_loop ?P [?m', ?g]
       else Some (Failed errUnexpectedPacket, ?c))"
    by (simp del: receive_loop.simps)
  then have w9a: "receive_loop ?P [?m, ?m', ?g] = receive_loop ?P [?m', ?g]"
    unfolding m(2) by (simp del: receive_loop.simps)
  from L [OF m(3), where deadline = "Some 100" and rs = "[?g]" and authenticated = False
      and ntpresp = ?resp] mg'
  have "receive_loop ?P [?m', ?g] =
      (if Now_check ?m' < 100 then receive_loop ?P [?g]
       else Some (Failed errUnexpectedPacket, ?c))"
    by (simp del: receive_loop.simps)
  then have w9b: "receive_loop ?P [?m', ?g] = Some (Failed errUnexpectedPacket, ?c)"
    unfolding m(4) by (simp del: receive_loop.simps)
  note w9 = two [OF w9a w9b]
  let ?c' = "interleaved_client True"
  let ?K = "receive ?X (Some 100) example_local example_remote ?ref (Some [1, 2, 3]) Packet0 11 ?c'"
  let ?d = "[0, 0, 0, 2, 0] @ replicate 7 0 @ replicate 16 8 :: bytes"
  let ?b = "response 0 20 30 [(OptTypeAuthenticator, ?d)]"
  note K = T [OF _ refl, where reference = ?ref and authKey = "Some [1, 2, 3]"
      and ntpreq = Packet0 and cTxTime = 11 and c = ?c' and deadline = "Some 100"]
  have b: "Read_err ?b = None"
    by (simp add: response_def)
  have bg: "Read_flags ?b = 0 \<and> Decode_err ?b = None \<and> validType ?b \<and>
      validAddr (SrcIA (scionLayer ?b)) (RawSrcAddr (scionLayer ?b)) example_remote = Inr True \<and>
      validAddr (DstIA (scionLayer ?b)) (RawDstAddr (scionLayer ?b)) example_local = Inr True \<and>
      Some [1, 2, 3] = Some ([1, 2, 3] :: bytes) \<and> hasE2E ?b \<and>
      FindOption (e2eLayer ?b) OptTypeAuthenticator = Some ?d \<and>
      length ?d = PacketAuthOptDataLen \<and>
      spi_of ?d = PacketAuthServerSPI ?X \<and> ?d ! 4 = PacketAuthAlgorithm ?X \<and>
      ComputeAuthCMAC ?X \<lparr>Key = [1, 2, 3], Header = ?d, ScionLayer = scionLayer ?b,
        PldType = L4UDP, Pld = Received (udp_bytes ?b)\<rparr> = Inr (replicate 16 7) \<and>
      drop PacketAuthMetadataLen ?d \<noteq> replicate 16 7"
    by code_simp
  from K [OF b, where rs = "[?f']" and key = "[1, 2, 3]" and authOptData = ?d
      and mac = "replicate 16 7"] bg
  have w10a: "receive_loop ?K [?b, ?f'] = receive_loop ?K [?f']"
    by blast
  from K [OF f(4), where rs = "[]"] f(5)
  have "receive_loop ?K [?f'] =
      (if Now_check ?f' < 100 then receive_loop ?K []
       else Some (Failed errUnexpectedPacketFlags, ?c'))"
    by (simp del: receive_loop.simps)
  then have w10b: "receive_loop ?K [?f'] = Some (Failed errUnexpectedPacketFlags, ?c')"
    unfolding f(6) by (simp del: receive_loop.simps)
  note w10 = two [OF w10a w10b]
  let ?E = "example_environment (Some 100) (Inl (errOther ''no key'')) [?f, ?f', ?g]"
  let ?ref' = "reference_of ?X example_remote"
  let ?Q = "receive ?X (Some 100) example_local example_remote ?ref' None
      (ntpreq_of ?X ?c ?ref' 10) 11 ?c"
  have e: "ListenUDP_err (example_environment d k ds) = None"
    "Deadline (example_environment d k ds) = d"
    "SetDeadline_err (example_environment d k ds) = None"
    "WriteToUDPAddrPort (example_environment d k ds) = Write_complete"
    "ReadTXTimestamp (example_environment d k ds) = (11, 0, None)"
    "Now0 (example_environment d k ds) = 10"
    "datagrams (example_environment d k ds) = ds" for d k ds
    by (simp_all add: example_environment_def)
  let ?buffer = "[Layer_SCION \<lparr>SrcIA = 2, RawSrcAddr = [10, 0, 0, 1], DstIA = 1,
                         RawDstAddr = [10, 0, 0, 2], NextHdr = L4UDP\<rparr>,
           Layer_UDP 40000 123, Layer_Payload (ntpreq_of ?X ?c ?ref' 10)]"
  have d: "datagram_of ?X ?E ?c example_local example_remote (ntpreq_of ?X ?c ?ref' 10) =
      Inr (?buffer, None)"
    by (simp add: datagram_of_def example_environment_def interleaved_client_def serialize_def
        no_error_def example_local_def example_remote_def Let_def)
  note M = T [OF _ refl, where reference = ?ref' and authKey = None
      and ntpreq = "ntpreq_of ?X ?c ?ref' 10" and cTxTime = 11 and c = ?c
      and deadline = "Some 100" and E = ?E and buffer = ?buffer and fetched = None]
  from M [OF f(1)] d
  have m0: "MeasureClockOffsetSCION ?X ?E example_local example_remote ?c =
      receive_loop ?Q [?f, ?f', ?g]"
    by (simp add: e del: receive_loop.simps)
  from M [OF f(1), where rs = "[?f', ?g]"] f(2)
  have "receive_loop ?Q [?f, ?f', ?g] =
      (if Now_check ?f < 100 then receive_loop ?Q [?f', ?g]
       else Some (Failed errUnexpectedPacketFlags, ?c))"
    by (simp del: receive_loop.simps)
  then have m1: "receive_loop ?Q [?f, ?f', ?g] = receive_loop ?Q [?f', ?g]"
    unfolding f(3) by (simp del: receive_loop.simps)
  from M [OF f(4), where rs = "[?g]"] f(5)
  have "receive_loop ?Q [?f', ?g] =
      (if Now_check ?f' < 100 then receive_loop ?Q [?g]
       else Some (Failed errUnexpectedPacketFlags, ?c))"
    by (simp del: receive_loop.simps)
  then have m2: "receive_loop ?Q [?f', ?g] = Some (Failed errUnexpectedPacketFlags, ?c)"
    unfolding f(6) by (simp del: receive_loop.simps)
  from m0 m1 m2
  have w11: "MeasureClockOffsetSCION ?X ?E example_local example_remote ?c =
      Some (Failed errUnexpectedPacketFlags, ?c)"
    by (simp del: receive_loop.simps)
  from w1 w2 w3 w4 w5 w6 w7 w8 w9 w10 w11 show ?thesis
    by (intro conjI)
qed

text \<open>
  Claim C5 as it is stated fails: before the deadline of 100, a response from the expected
  ISD-AS number whose source host address has eight bytes ends the call with a panic,
  although a good response follows it; and when the context has no deadline, a response
  with flags ends the call with its error at once.
\<close>
theorem anomalies_wait_for_deadline_counterexample:
  "SrcIA (scionLayer ((response 0 20 30 [])\<lparr>scionLayer :=
       (scionLayer (response 0 20 30 []))\<lparr>RawSrcAddr := [10, 0, 0, 2, 0, 0, 0, 0]\<rparr>\<rparr>)) =
     IA example_remote \<and>
   Now_check ((response 0 20 30 [])\<lparr>scionLayer :=
       (scionLayer (response 0 20 30 []))\<lparr>RawSrcAddr := [10, 0, 0, 2, 0, 0, 0, 0]\<rparr>\<rparr>) < 100 \<and>
   MeasureClockOffsetSCION example_externals
     (example_environment (Some 100) (Inl (errOther ''no key''))
        [(response 0 20 30 [])\<lparr>scionLayer :=
            (scionLayer (response 0 20 30 []))\<lparr>RawSrcAddr := [10, 0, 0, 2, 0, 0, 0, 0]\<rparr>\<rparr>,
         response 0 20 30 []])
     example_local example_remote (interleaved_client False) =
     Some (Panicked (PanicString ''unexpected IP address byte slice''),
           interleaved_client False) \<and>
   MeasureClockOffsetSCION example_externals
     (example_environment None (Inl (errOther ''no key''))
        [(response 4 20 30 [])\<lparr>Read_flags := 1\<rparr>, response 0 20 30 []])
     example_local example_remote (interleaved_client False) =
     Some (Failed errUnexpectedPacketFlags, interleaved_client False)"
proof -
  let ?X = example_externals
  let ?c = "interleaved_client False"
  let ?o = "(response 0 20 30 [])\<lparr>scionLayer :=
         (scionLayer (response 0 20 30 []))\<lparr>RawSrcAddr := [10, 0, 0, 2, 0, 0, 0, 0]\<rparr>\<rparr>"
  let ?f = "(response 4 20 30 [])\<lparr>Read_flags := 1\<rparr>"
  have e: "ListenUDP_err (example_environment d k ds) = None"
    "Deadline (example_environment d k ds) = d"
    "SetDeadline_err (example_environment d k ds) = None"
    "WriteToUDPAddrPort (example_environment d k ds) = Write_complete"
    "ReadTXTimestamp (example_environment d k ds) = (11, 0, None)"
    "datagrams (example_environment d k ds) = ds" for d k ds
    by (simp_all add: example_environment_def)
  have d: "datagram_of ?X (example_environment dl (Inl (errOther ''no key'')) ds)
      ?c example_local example_remote p =
    Inr ([Layer_SCION \<lparr>SrcIA = 2, RawSrcAddr = [10, 0, 0, 1], DstIA = 1,
                         RawDstAddr = [10, 0, 0, 2], NextHdr = L4UDP\<rparr>,
          Layer_UDP 40000 123, Layer_Payload p], None)" for dl ds p
    by (simp add: datagram_of_def example_environment_def interleaved_client_def serialize_def
        no_error_def example_local_def example_remote_def Let_def)
  have h1: "SrcIA (scionLayer ?o) = IA example_remote"
    by (simp add: response_def example_remote_def)
  have h2: "Now_check ?o < 100"
    by (simp add: response_def)
  have r: "receive ?X dl example_local example_remote ref None p t c ?o =
      Return (Panicked (PanicString ''unexpected IP address byte slice'')) c" for dl ref p t c
    by (simp add: receive_def response_def validType_def validAddr_def compareIPs_def
        AddrFromSlice_def example_remote_def)
  have r': "receive ?X None example_local example_remote ref None p t c ?f =
      Return (Failed errUnexpectedPacketFlags) c" for ref p t c
    by (simp add: receive_def response_def continue_or_return_def)
  have m: "MeasureClockOffsetSCION ?X
      (example_environment (Some 100) (Inl (errOther ''no key'')) [?o, response 0 20 30 []])
      example_local example_remote ?c =
      Some (Panicked (PanicString ''unexpected IP address byte slice''), ?c)"
    unfolding MeasureClockOffsetSCION_def by (simp add: e d r Let_def)
  have m': "MeasureClockOffsetSCION ?X
      (example_environment None (Inl (errOther ''no key'')) [?f, response 0 20 30 []])
      example_local example_remote ?c =
      Some (Failed errUnexpectedPacketFlags, ?c)"
    unfolding MeasureClockOffsetSCION_def by (simp add: e d r' Let_def)
  from h1 h2 m m' show ?thesis
    by (intro conjI)
qed

text \<open>
  A response received by the server at 30 and sent at 20: the classical order of the four
  timestamps fails on \<open>(11, 30, 20, 40)\<close> and holds on \<open>(11, 30, 30, 40)\<close>, and the
  response is measured. With a transmit time of 50, after the receive time of 40, the call
  returns the error at once, before the deadline of 100 and with a datagram waiting.
\<close>
theorem timestamps_validated_with_t1_twice_witness:
  "well_received example_externals example_local example_remote None (response 0 30 20 []) False \<and>
   DecodePacket (response 0 30 20 []) =
     Inr (Packet0\<lparr>Version := 4, Mode := 4, OriginTime := 0, ReceiveTime := 30,
            TransmitTime := 20\<rparr>) \<and>
   ValidateTimestamps example_externals 11 30 30 40 = None \<and>
   ValidateTimestamps example_externals 11 30 20 40 \<noteq> None \<and>
   (\<exists>off w c'.
      receive example_externals (Some 100) example_local example_remote
        ''1-ff00:0:110,10.0.0.2:123'' None Packet0 11 defaultSCIONClient
        (response 0 30 20 []) =
      Return (Measured (Measurement off w False False (11, 30, 20, 40))) c') \<and>
   ValidateTimestamps example_externals 50 30 30 40 = Some (errOther ''timestamps out of order'') \<and>
   receive_loop (receive example_externals (Some 100) example_local example_remote
        ''1-ff00:0:110,10.0.0.2:123'' None Packet0 50 defaultSCIONClient)
     [response 0 30 20 [], response 0 30 35 []] =
     Some (Failed (errOther ''timestamps out of order''), defaultSCIONClient)"
proof -
  let ?X = example_externals
  let ?c = defaultSCIONClient
  let ?r = "response 0 30 20 []"
  let ?p = "Packet0\<lparr>Version := 4, Mode := 4, OriginTime := 0, ReceiveTime := 30,
            TransmitTime := 20\<rparr>"
  have h1: "well_received ?X example_local example_remote None ?r False"
    by code_simp
  have h2: "DecodePacket ?r = Inr ?p"
    by (simp add: response_def)
  have h3: "InterleavedMode ?c \<and> OriginTime ?p = prev_cRxTime ?c \<or>
      OriginTime ?p = TransmitTime Packet0"
    by (simp add: Packet0_def)
  have h4: "ValidateMetadata ?X ?p = None"
    by (simp add: example_externals_def accept_metadata_def)
  have i: "False = (InterleavedMode ?c \<and> OriginTime ?p = prev_cRxTime ?c)"
    by (simp add: defaultSCIONClient_def)
  have t1: "30 = (if False then TimeFromTime64 ?X (prev_sRxTime ?c)
      else TimeFromTime64 ?X (ReceiveTime ?p))"
    by (simp add: example_externals_def time_of_def)
  have t2: "20 = TimeFromTime64 ?X (TransmitTime ?p)"
    by (simp add: example_externals_def time_of_def)
  have t3: "40 = (if False then TimeFromTime64 ?X (prev_cRxTime ?c) else cRxTime_of ?X ?r)"
    by code_simp
  have ta: "11 = (if False then TimeFromTime64 ?X (prev_cTxTime ?c) else 11)"
    by simp
  have tb: "50 = (if False then TimeFromTime64 ?X (prev_cTxTime ?c) else 50)"
    by simp
  have v1: "ValidateTimestamps ?X 11 30 30 40 = None"
    by (simp add: example_externals_def ordered_stamps_def)
  have v2: "ValidateTimestamps ?X 11 30 20 40 \<noteq> None"
    by (simp add: example_externals_def ordered_stamps_def)
  have v3: "ValidateTimestamps ?X 50 30 30 40 = Some (errOther ''timestamps out of order'')"
    by (simp add: example_externals_def ordered_stamps_def)
  note T = timestamps_validated_with_t1_twice [OF h1 h2 h3 h4 i ta t1 t2 t3,
      where deadline = "Some 100" and reference = "''1-ff00:0:110,10.0.0.2:123''"]
  from T v1 have a: "\<exists>off w c'.
      receive ?X (Some 100) example_local example_remote
        ''1-ff00:0:110,10.0.0.2:123'' None Packet0 11 ?c ?r =
      Return (Measured (Measurement off w False False (11, 30, 20, 40))) c'"
    by blast
  note U = timestamps_validated_with_t1_twice [OF h1 h2 h3 h4 i tb t1 t2 t3,
      where deadline = "Some 100" and reference = "''1-ff00:0:110,10.0.0.2:123''"
      and rs = "[response 0 30 35 []]" and err = "errOther ''timestamps out of order''"]
  from U v3 have b: "receive_loop (receive ?X (Some 100) example_local example_remote
        ''1-ff00:0:110,10.0.0.2:123'' None Packet0 50 ?c) [?r, response 0 30 35 []] =
     Some (Failed (errOther ''timestamps out of order''), ?c)"
    by blast
  from h1 h2 v1 v2 a v3 b show ?thesis
    by (intro conjI)
qed


text \<open>
  A failed key fetch; a response without extension; one whose MAC differs; one with an
  authenticator option of five bytes.
\<close>
theorem authenticator_checked_witness:
  "datagram_of example_externals (example_environment (Some 100) (Inl (errOther ''no key'')) [])
     (interleaved_client True) example_local example_remote Packet0 =
     Inr ([Layer_SCION \<lparr>SrcIA = 2, RawSrcAddr = [10, 0, 0, 1], DstIA = 1,
                         RawDstAddr = [10, 0, 0, 2], NextHdr = L4UDP\<rparr>,
           Layer_UDP 40000 123, Layer_Payload Packet0], None) \<and>
   \<not> hasE2E (response 4 20 30 []) \<and>
   authenticate example_externals (Some [1, 2, 3]) (response 4 20 30 []) = Pass False \<and>
   well_received example_externals example_local example_remote (Some [1, 2, 3])
     (response 4 20 30 []) False \<and>
   receive example_externals (Some 100) example_local example_remote
     ''1-ff00:0:110,10.0.0.2:123'' (Some [1, 2, 3]) Packet0 11 (interleaved_client True)
     (response 4 20 30 []) =
     process_response example_externals (Some 100) ''1-ff00:0:110,10.0.0.2:123'' Packet0 11
       (interleaved_client True) (response 4 20 30 []) 40 False \<and>
   authenticate example_externals (Some [1, 2, 3])
     (response 4 20 30 [(OptTypeAuthenticator, [0, 0, 0, 2, 0] @ replicate 7 0 @ replicate 16 8)])
     = Drop \<and>
   authenticate example_externals (Some [1, 2, 3])
     (response 4 20 30 [(OptTypeAuthenticator, [0, 0, 0, 9, 0])]) =
     Abort (PanicString ''unexpected authenticator option data'')"
proof -
  let ?X = example_externals
  let ?E = "example_environment (Some 100) (Inl (errOther ''no key'')) []"
  let ?c = "interleaved_client True"
  let ?k = "Some [1, 2, 3] :: bytes option"
  let ?r = "response 4 20 30 []"
  let ?d = "[0, 0, 0, 2, 0] @ replicate 7 0 @ replicate 16 8 :: bytes"
  let ?bad = "response 4 20 30 [(OptTypeAuthenticator, ?d)]"
  let ?short = "response 4 20 30 [(OptTypeAuthenticator, [0, 0, 0, 9, 0])]"
  let ?buffer = "[Layer_SCION \<lparr>SrcIA = 2, RawSrcAddr = [10, 0, 0, 1], DstIA = 1,
                         RawDstAddr = [10, 0, 0, 2], NextHdr = L4UDP\<rparr>,
           Layer_UDP 40000 123, Layer_Payload Packet0]"
  have h1: "datagram_of ?X ?E ?c example_local example_remote Packet0 = Inr (?buffer, None)"
    by (simp add: datagram_of_def example_environment_def interleaved_client_def serialize_def
        no_error_def example_local_def example_remote_def Let_def)
  have h2: "\<not> hasE2E ?r"
    by code_simp
  have h3: "well_received ?X example_local example_remote ?k ?r False"
    by code_simp
  have h4: "\<exists>k authOptData mac. ?k = Some k \<and> hasE2E ?bad \<and>
        FindOption (e2eLayer ?bad) OptTypeAuthenticator = Some authOptData \<and>
        length authOptData = PacketAuthOptDataLen \<and>
        spi_of authOptData = PacketAuthServerSPI ?X \<and> authOptData ! 4 = PacketAuthAlgorithm ?X \<and>
        ComputeAuthCMAC ?X \<lparr>Key = k, Header = authOptData, ScionLayer = scionLayer ?bad,
          PldType = L4UDP, Pld = Received (udp_bytes ?bad)\<rparr> = Inr mac \<and>
        drop PacketAuthMetadataLen authOptData \<noteq> mac"
  proof (intro exI conjI)
    show "?k = Some [1, 2, 3]" by simp
    show "hasE2E ?bad" by code_simp
    show "FindOption (e2eLayer ?bad) OptTypeAuthenticator = Some ?d" by code_simp
    show "length ?d = PacketAuthOptDataLen" by code_simp
    show "spi_of ?d = PacketAuthServerSPI ?X" by code_simp
    show "?d ! 4 = PacketAuthAlgorithm ?X" by code_simp
    show "ComputeAuthCMAC ?X \<lparr>Key = [1, 2, 3], Header = ?d, ScionLayer = scionLayer ?bad,
          PldType = L4UDP, Pld = Received (udp_bytes ?bad)\<rparr> = Inr (replicate 16 7)"
      by (simp add: example_externals_def example_mac_def)
    show "drop PacketAuthMetadataLen ?d \<noteq> replicate 16 7" by code_simp
  qed
  have h5: "?k = Some [1, 2, 3] \<and> hasE2E ?short \<and>
      FindOption (e2eLayer ?short) OptTypeAuthenticator = Some [0, 0, 0, 9, 0] \<and>
      length ([0, 0, 0, 9, 0] :: bytes) \<noteq> PacketAuthOptDataLen"
    by code_simp
  have t: "cRxTime_of ?X ?r = 40"
    by code_simp
  note T = authenticator_checked [where X = ?X and c = ?c and localAddr = example_local
      and remoteAddr = example_remote and ntpreq = Packet0 and deadline = "Some 100"
      and reference = "''1-ff00:0:110,10.0.0.2:123''" and cTxTime = 11]
  from T [where r = ?r and authKey = ?k] h2
  have a: "authenticate ?X ?k ?r = Pass False"
    by blast
  from T [where r = ?r and authKey = ?k] h3
  have b: "receive ?X (Some 100) example_local example_remote
     ''1-ff00:0:110,10.0.0.2:123'' ?k Packet0 11 ?c ?r =
     process_response ?X (Some 100) ''1-ff00:0:110,10.0.0.2:123'' Packet0 11 ?c ?r 40 False"
    unfolding t by blast
  from T [where r = ?bad and authKey = ?k] h4
  have d: "authenticate ?X ?k ?bad = Drop"
    by blast
  from T [where r = ?short and authKey = ?k and k' = "[1, 2, 3]"
      and authOptData' = "[0, 0, 0, 9, 0]"] h5
  have e: "authenticate ?X ?k ?short = Abort (PanicString ''unexpected authenticator option data'')"
    by blast
  from h1 h2 a h3 b d e show ?thesis
    by (intro conjI)
qed

text \<open>
  Claim C7 as it is stated fails: with a key fetched, a response whose authenticator
  option has five bytes and another SPI than the server's is neither accepted nor
  discarded; the call panics.
\<close>
theorem authenticator_checked_counterexample:
  "FetchHostHostKey (example_environment (Some 100) (Inr [1, 2, 3])
     [response 4 20 30 [(OptTypeAuthenticator, [0, 0, 0, 9, 0])]]) = Inr [1, 2, 3] \<and>
   FindOption (e2eLayer (response 4 20 30 [(OptTypeAuthenticator, [0, 0, 0, 9, 0])]))
     OptTypeAuthenticator = Some [0, 0, 0, 9, 0] \<and>
   spi_of [0, 0, 0, 9, 0] \<noteq> PacketAuthServerSPI example_externals \<and>
   MeasureClockOffsetSCION example_externals
     (example_environment (Some 100) (Inr [1, 2, 3])
        [response 4 20 30 [(OptTypeAuthenticator, [0, 0, 0, 9, 0])]])
     example_local example_remote (interleaved_client True) =
     Some (Panicked (PanicString ''unexpected authenticator option data''),
           interleaved_client True)"
proof -
  let ?r = "response 4 20 30 [(OptTypeAuthenticator, [0, 0, 0, 9, 0])]"
  have e: "ListenUDP_err (example_environment d k ds) = None"
    "Deadline (example_environment d k ds) = d"
    "SetDeadline_err (example_environment d k ds) = None"
    "FetchHostHostKey (example_environment d k ds) = k"
    "WriteToUDPAddrPort (example_environment d k ds) = Write_complete"
    "ReadTXTimestamp (example_environment d k ds) = (11, 0, None)"
    "datagrams (example_environment d k ds) = ds" for d k ds
    by (simp_all add: example_environment_def)
  have f: "FindOption (e2eLayer ?r) OptTypeAuthenticator = Some [0, 0, 0, 9, 0]"
    by (simp add: response_def FindOption_def)
  have s: "spi_of [0, 0, 0, 9, 0] \<noteq> PacketAuthServerSPI example_externals"
    by code_simp
  have r: "receive example_externals dl example_local example_remote ref (Some [1, 2, 3]) p t c ?r =
      Return (Panicked (PanicString ''unexpected authenticator option data'')) c" for dl ref p t c
    by (simp add: receive_def response_def validType_def validAddr_def compareIPs_def
        AddrFromSlice_def Is4In6_def Addr_Compare_def BitLen_def Addr_bytes_def
        example_remote_def example_local_def authenticate_def hasE2E_def FindOption_def
        PacketAuthOptDataLen_def)
  have d: "datagram_of example_externals (example_environment (Some 100) (Inr [1, 2, 3]) ds)
      (interleaved_client True) example_local example_remote p =
    Inr ([Layer_SCION \<lparr>SrcIA = 2, RawSrcAddr = [10, 0, 0, 1], DstIA = 1,
                         RawDstAddr = [10, 0, 0, 2], NextHdr = End2EndClass\<rparr>,
          Layer_EndToEndExtn L4UDP
            [(OptTypeAuthenticator, [0, 0, 0, 1, 0] @ replicate 7 0 @ replicate 16 7)],
          Layer_UDP 40000 123, Layer_Payload p], Some [1, 2, 3])" for ds p
    by (simp add: datagram_of_def example_environment_def interleaved_client_def serialize_def
        no_error_def example_local_def example_remote_def authOptData_of_def
        example_externals_def example_mac_def PacketAuthMetadataLen_def Let_def)
  have m: "MeasureClockOffsetSCION example_externals
      (example_environment (Some 100) (Inr [1, 2, 3]) [?r])
      example_local example_remote (interleaved_client True) =
      Some (Panicked (PanicString ''unexpected authenticator option data''),
            interleaved_client True)"
    unfolding MeasureClockOffsetSCION_def by (simp add: e d r Let_def)
  from e(4) f s m show ?thesis
    by (intro conjI)
qed

end
